theory Spec2Isabelle
  imports Complex_Main
begin

section \<open>Data model\<close>

subsection \<open>JavaScript strings and values\<close>

text \<open>
  A JavaScript string is a sequence of UTF-16 code units. A code unit is modelled as a
  natural number, so \<open>length\<close> counts what \<^verbatim>\<open>.length\<close> counts. ASCII literals of the source
  are written \<open>ascii ''...''\<close>; literals in other scripts are given by their code units.
\<close>

type_synonym jstr = "nat list"

definition ascii :: "string \<Rightarrow> jstr" where
  "ascii s = map of_char s"

text \<open>
  The values that \<^verbatim>\<open>JSON.parse\<close> and the HTTP clients hand to the services. An object lists
  its members in the order in which JavaScript enumerates them. A number is written as the
  exact value of its literal and stands for the double nearest to that value: the services
  only test a parsed number for truthiness and copy it into their result, and two literals
  of one double are not identified.
\<close>

datatype jsval =
    JUndefined
  | JNull
  | JBool bool
  | JNum rat
  | JStr jstr
  | JArr "jsval list"
  | JObj "(jstr \<times> jsval) list"

text \<open>A thrown \<^verbatim>\<open>Error\<close> object: its name, its optional \<^verbatim>\<open>status\<close> and its \<^verbatim>\<open>message\<close>.\<close>

datatype err_kind = PlainError | TypeError | SyntaxError | ApiError

record js_error =
  err_kind :: err_kind
  err_status :: "nat option"
  err_message :: jstr

definition mk_Error :: "jstr \<Rightarrow> js_error" where
  "mk_Error m = \<lparr>err_kind = PlainError, err_status = None, err_message = m\<rparr>"

definition mk_TypeError :: "jstr \<Rightarrow> js_error" where
  "mk_TypeError m = \<lparr>err_kind = TypeError, err_status = None, err_message = m\<rparr>"

subsection \<open>Content rows and analysis records\<close>

text \<open>
  The content object handed to the analysis services: a row of one of the content tables
  (text columns, possibly NULL) or the draft sent by a client. A missing, NULL or undefined
  field is \<open>None\<close>.
\<close>

record contentT =
  title :: "jstr option"
  purpose :: "jstr option"
  arabic_text :: "jstr option"
  english_meaning :: "jstr option"
  transliteration :: "jstr option"
  native_meaning :: "jstr option"
  source_reference :: "jstr option"
  content :: "jstr option"
  meaning :: "jstr option"

text \<open>The object every analysis path returns; \<open>source\<close> is only set by the local fallback.\<close>

record analysis =
  summary :: jsval
  corrections :: "jsval list"
  authenticity :: jsval
  confidence :: jsval
  source :: "jstr option"

datatype outcome = Resolved analysis | Rejected js_error

section \<open>The in-process request queue of Gemma3Service\<close>

text \<open>
  \<^verbatim>\<open>generateAnalysisWithQueue\<close> creates a promise, pushes a request carrying the promise's
  \<^verbatim>\<open>resolve\<close>/\<^verbatim>\<open>reject\<close> pair, and calls \<^verbatim>\<open>processQueue\<close>. JavaScript runs each callback to
  its next \<^verbatim>\<open>await\<close> without interleaving, so the service is a transition system whose
  atomic steps are: a caller enqueues, a pending \<^verbatim>\<open>generateAnalysis\<close> call returns, a
  timer created by \<^verbatim>\<open>setTimeout\<close> fires, the clock advances, an operator clears the queue.
\<close>

record request =
  req_contentType :: jstr
  req_content :: contentT
  req_promise :: nat
  req_timestamp :: nat

record qstate =
  isProcessing :: bool
  requestQueue :: "request list"
  currentRequest :: "request option"
  inflight :: "request list"
  timers :: "nat list"
  clock :: nat
  nextPromise :: nat
  settled :: "(nat \<times> outcome) list"
  started :: "(nat \<times> nat) list"
  finished :: "(nat \<times> nat) list"

text \<open>
  Besides the three fields of the service, the state records the environment:
  \<open>inflight\<close> are the \<^verbatim>\<open>generateAnalysis\<close> calls that have started and not yet returned,
  \<open>timers\<close> the due times of pending \<^verbatim>\<open>setTimeout\<close> callbacks, \<open>clock\<close> the time in
  milliseconds, \<open>settled\<close> the promises resolved or rejected so far, and \<open>started\<close> and
  \<open>finished\<close> log each call's promise with the time it started and returned.
\<close>

definition q_init :: qstate where
  "q_init = \<lparr>isProcessing = False, requestQueue = [], currentRequest = None,
     inflight = [], timers = [], clock = 0, nextPromise = 0, settled = [],
     started = [], finished = []\<rparr>"

text \<open>\<^verbatim>\<open>processQueue\<close> up to its \<^verbatim>\<open>await\<close>: the guard, the shift, and the start of the call.\<close>

definition processQueue :: "qstate \<Rightarrow> qstate" where
  "processQueue s =
     (case requestQueue s of
        [] \<Rightarrow> s
      | r # rest \<Rightarrow>
          if isProcessing s then s
          else s\<lparr>isProcessing := True,
                 requestQueue := rest,
                 currentRequest := Some r,
                 inflight := inflight s @ [r],
                 started := started s @ [(req_promise r, clock s)]\<rparr>)"

text \<open>
  \<^verbatim>\<open>processQueue\<close> after its \<^verbatim>\<open>await\<close>, for the request \<open>r\<close> the invocation shifted: the
  promise is resolved or rejected, and the \<^verbatim>\<open>finally\<close> block frees the slot and, if
  requests are waiting, sets a timer of 1000 ms for the next \<^verbatim>\<open>processQueue\<close>.
\<close>

definition processQueue_resume :: "request \<Rightarrow> outcome \<Rightarrow> qstate \<Rightarrow> qstate" where
  "processQueue_resume r out s =
     (let s1 = s\<lparr>settled := settled s @ [(req_promise r, out)],
                 finished := finished s @ [(req_promise r, clock s)]\<rparr>;
          s2 = s1\<lparr>isProcessing := False, currentRequest := None\<rparr>
      in if requestQueue s2 \<noteq> [] then s2\<lparr>timers := timers s2 @ [clock s2 + 1000]\<rparr> else s2)"

definition generateAnalysisWithQueue :: "jstr \<Rightarrow> contentT \<Rightarrow> qstate \<Rightarrow> qstate" where
  "generateAnalysisWithQueue ct c s =
     (let r = \<lparr>req_contentType = ct, req_content = c,
                req_promise = nextPromise s, req_timestamp = clock s\<rparr>
      in processQueue (s\<lparr>requestQueue := requestQueue s @ [r],
                         nextPromise := Suc (nextPromise s)\<rparr>))"

definition clearQueue :: "qstate \<Rightarrow> qstate" where
  "clearQueue s =
     s\<lparr>settled := settled s @
          map (\<lambda>r. (req_promise r, Rejected (mk_Error (ascii ''Queue cleared'')))) (requestQueue s),
       requestQueue := [],
       isProcessing := False,
       currentRequest := None\<rparr>"

record queueStatus =
  qs_isProcessing :: bool
  qs_queueLength :: nat
  qs_currentRequest :: "(jstr \<times> nat) option"

definition getQueueStatus :: "qstate \<Rightarrow> queueStatus" where
  "getQueueStatus s =
     \<lparr>qs_isProcessing = isProcessing s,
      qs_queueLength = length (requestQueue s),
      qs_currentRequest =
        (case currentRequest s of None \<Rightarrow> None
         | Some r \<Rightarrow> Some (req_contentType r, req_timestamp r))\<rparr>"

datatype event =
    Enqueue jstr contentT
  | Return nat outcome
  | Fire
  | Tick nat
  | Clear

text \<open>
  One atomic step; \<open>None\<close> when the event cannot happen in the state (a call that is not
  in flight cannot return, a timer cannot fire before it is due).
\<close>

fun q_step :: "event \<Rightarrow> qstate \<Rightarrow> qstate option" where
  "q_step (Enqueue ct c) s = Some (generateAnalysisWithQueue ct c s)"
| "q_step (Return p out) s =
     (case find (\<lambda>r. req_promise r = p) (inflight s) of
        None \<Rightarrow> None
      | Some r \<Rightarrow>
          Some (processQueue_resume r out
                  (s\<lparr>inflight := filter (\<lambda>r. req_promise r \<noteq> p) (inflight s)\<rparr>)))"
| "q_step Fire s =
     (case timers s of
        [] \<Rightarrow> None
      | due # ts \<Rightarrow> if due \<le> clock s then Some (processQueue (s\<lparr>timers := ts\<rparr>)) else None)"
| "q_step (Tick d) s = Some (s\<lparr>clock := clock s + d\<rparr>)"
| "q_step Clear s = Some (clearQueue s)"

fun q_run :: "event list \<Rightarrow> qstate \<Rightarrow> qstate option" where
  "q_run [] s = Some s"
| "q_run (e # es) s = (case q_step e s of None \<Rightarrow> None | Some s' \<Rightarrow> q_run es s')"


section \<open>Strings\<close>

text \<open>
  The white space of \<^verbatim>\<open>String.prototype.trim\<close> and of the regular-expression class
  \<^verbatim>\<open>\s\<close>: the WhiteSpace and LineTerminator code points of ECMAScript.
\<close>

definition is_ws :: "nat \<Rightarrow> bool" where
  "is_ws c \<longleftrightarrow>
     c = 9 \<or> c = 10 \<or> c = 11 \<or> c = 12 \<or> c = 13 \<or> c = 32 \<or> c = 160 \<or> c = 5760
     \<or> (8192 \<le> c \<and> c \<le> 8202) \<or> c = 8232 \<or> c = 8233 \<or> c = 8239 \<or> c = 8287
     \<or> c = 12288 \<or> c = 65279"

definition trim :: "jstr \<Rightarrow> jstr" where
  "trim s = rev (dropWhile is_ws (rev (dropWhile is_ws s)))"

definition lower_ascii :: "nat \<Rightarrow> nat" where
  "lower_ascii c = (if 65 \<le> c \<and> c \<le> 90 then c + 32 else c)"

text \<open>
  \<^verbatim>\<open>toLowerCase\<close>, as far as the program observes it: the lower-cased line is only
  searched for ASCII words. The code units whose lower-case form contains an ASCII letter
  are \<^verbatim>\<open>A\<close>-\<^verbatim>\<open>Z\<close>, U+0130 (which becomes \<^verbatim>\<open>i\<close> followed by U+0307) and U+212A (the Kelvin
  sign, which becomes \<^verbatim>\<open>k\<close>); every other code unit lower-cases to non-ASCII code units
  and is kept as it is.
\<close>

definition lower_unit :: "nat \<Rightarrow> jstr" where
  "lower_unit c =
     (if 65 \<le> c \<and> c \<le> 90 then [c + 32]
      else if c = 304 then [105, 775]
      else if c = 8490 then [107]
      else [c])"

definition toLowerCase :: "jstr \<Rightarrow> jstr" where
  "toLowerCase s = concat (map lower_unit s)"

fun starts_with :: "jstr \<Rightarrow> jstr \<Rightarrow> bool" where
  "starts_with s [] = True"
| "starts_with [] (n # ns) = False"
| "starts_with (c # cs) (n # ns) = (c = n \<and> starts_with cs ns)"

text \<open>\<^verbatim>\<open>s.includes(n)\<close>\<close>

fun js_includes :: "jstr \<Rightarrow> jstr \<Rightarrow> bool" where
  "js_includes [] n = (n = [])"
| "js_includes (c # cs) n = (starts_with (c # cs) n \<or> js_includes cs n)"

text \<open>\<^verbatim>\<open>s.split('\n')\<close>; the first argument is the line read so far, reversed.\<close>

fun split_nl :: "jstr \<Rightarrow> jstr \<Rightarrow> jstr list" where
  "split_nl cur [] = [rev cur]"
| "split_nl cur (c # cs) = (if c = 10 then rev cur # split_nl [] cs else split_nl (c # cur) cs)"

text \<open>
  A literal pattern at the start of the string under the \<^verbatim>\<open>i\<close> flag (without the \<^verbatim>\<open>u\<close>
  flag a non-ASCII code unit never matches an ASCII letter): the rest of the string after
  the pattern, if it is there.
\<close>

fun strip_ci :: "jstr \<Rightarrow> jstr \<Rightarrow> jstr option" where
  "strip_ci [] s = Some s"
| "strip_ci (p # ps) [] = None"
| "strip_ci (p # ps) (c # cs) =
     (if lower_ascii c = lower_ascii p then strip_ci ps cs else None)"

text \<open>
  \<^verbatim>\<open>s.replace(/^(a:|N\.\s*b|c)\s*/i, '')\<close> for the three header patterns of the text
  parser: \<open>a\<close> is the word with its colon, \<open>num\<close> the numbered prefix (\<^verbatim>\<open>1.\<close>),
  \<open>b\<close> the word after it and \<open>c\<close> the bare word. The alternatives are tried in order.
\<close>

definition strip_header :: "jstr \<Rightarrow> jstr \<Rightarrow> jstr \<Rightarrow> jstr \<Rightarrow> jstr \<Rightarrow> jstr" where
  "strip_header a num b c s =
     (case strip_ci a s of
        Some r \<Rightarrow> dropWhile is_ws r
      | None \<Rightarrow>
          (case (case strip_ci num s of
                   None \<Rightarrow> None
                 | Some r1 \<Rightarrow> strip_ci b (dropWhile is_ws r1)) of
             Some r \<Rightarrow> dropWhile is_ws r
           | None \<Rightarrow>
               (case strip_ci c s of
                  Some r \<Rightarrow> dropWhile is_ws r
                | None \<Rightarrow> s)))"

section \<open>JSON.parse\<close>

text \<open>
  \<^verbatim>\<open>JSON.parse\<close> is part of the language, not of the repository. It is modelled after the
  JSON grammar (ECMA-404) in two passes: a lexer that reads one code unit at a time, and
  a parser that reads one token at a time and keeps the open arrays and objects on a
  stack. \<open>None\<close> is the \<^verbatim>\<open>SyntaxError\<close> that \<^verbatim>\<open>JSON.parse\<close> throws.
\<close>

datatype token =
    TLBrace | TRBrace | TLBracket | TRBracket | TColon | TComma
  | TString jstr | TNumber rat | TTrue | TFalse | TNull

datatype num_phase = NMinus | NZero | NInt | NDot | NFrac | NExp | NExpSign | NExpDigits

text \<open>
  The lexer's mode: between tokens; inside a string (the code units read so far,
  reversed); after a backslash; inside \<^verbatim>\<open>\uXXXX\<close> (digits read and their value); inside a
  number (negative?, phase, digits of the integer and fraction part as a number, count of
  fraction digits, negative exponent?, exponent); inside \<^verbatim>\<open>true\<close>, \<^verbatim>\<open>false\<close> or
  \<^verbatim>\<open>null\<close> (the code units still expected).
\<close>

datatype lex_mode =
    LIdle
  | LStr jstr
  | LEsc jstr
  | LUni jstr nat nat
  | LNum bool num_phase nat nat bool nat
  | LLit jstr token

definition digit_val :: "nat \<Rightarrow> nat option" where
  "digit_val c = (if 48 \<le> c \<and> c \<le> 57 then Some (c - 48) else None)"

definition hex_val :: "nat \<Rightarrow> nat option" where
  "hex_val c =
     (if 48 \<le> c \<and> c \<le> 57 then Some (c - 48)
      else if 97 \<le> c \<and> c \<le> 102 then Some (c - 87)
      else if 65 \<le> c \<and> c \<le> 70 then Some (c - 55)
      else None)"

definition num_value :: "bool \<Rightarrow> nat \<Rightarrow> nat \<Rightarrow> bool \<Rightarrow> nat \<Rightarrow> rat" where
  "num_value neg mant scale eneg ex =
     (if neg then - 1 else 1) * (of_nat mant / 10 ^ scale)
       * (if eneg then 1 / 10 ^ ex else 10 ^ ex)"

definition num_accepting :: "num_phase \<Rightarrow> bool" where
  "num_accepting ph \<longleftrightarrow> ph = NZero \<or> ph = NInt \<or> ph = NFrac \<or> ph = NExpDigits"

text \<open>One more code unit of a number: the next state, or \<open>None\<close> if it is not part of it.\<close>

fun num_step :: "bool \<Rightarrow> num_phase \<Rightarrow> nat \<Rightarrow> nat \<Rightarrow> bool \<Rightarrow> nat \<Rightarrow> nat \<Rightarrow> lex_mode option" where
  "num_step neg NMinus m sc en ex c =
     (if c = 48 then Some (LNum neg NZero m sc en ex)
      else if 49 \<le> c \<and> c \<le> 57 then Some (LNum neg NInt (c - 48) sc en ex)
      else None)"
| "num_step neg NZero m sc en ex c =
     (if c = 46 then Some (LNum neg NDot m sc en ex)
      else if c = 101 \<or> c = 69 then Some (LNum neg NExp m sc en ex)
      else None)"
| "num_step neg NInt m sc en ex c =
     (case digit_val c of
        Some d \<Rightarrow> Some (LNum neg NInt (m * 10 + d) sc en ex)
      | None \<Rightarrow>
          if c = 46 then Some (LNum neg NDot m sc en ex)
          else if c = 101 \<or> c = 69 then Some (LNum neg NExp m sc en ex)
          else None)"
| "num_step neg NDot m sc en ex c =
     (case digit_val c of
        Some d \<Rightarrow> Some (LNum neg NFrac (m * 10 + d) (Suc sc) en ex)
      | None \<Rightarrow> None)"
| "num_step neg NFrac m sc en ex c =
     (case digit_val c of
        Some d \<Rightarrow> Some (LNum neg NFrac (m * 10 + d) (Suc sc) en ex)
      | None \<Rightarrow> if c = 101 \<or> c = 69 then Some (LNum neg NExp m sc en ex) else None)"
| "num_step neg NExp m sc en ex c =
     (if c = 43 then Some (LNum neg NExpSign m sc False ex)
      else if c = 45 then Some (LNum neg NExpSign m sc True ex)
      else (case digit_val c of
              Some d \<Rightarrow> Some (LNum neg NExpDigits m sc en d)
            | None \<Rightarrow> None))"
| "num_step neg NExpSign m sc en ex c =
     (case digit_val c of
        Some d \<Rightarrow> Some (LNum neg NExpDigits m sc en d)
      | None \<Rightarrow> None)"
| "num_step neg NExpDigits m sc en ex c =
     (case digit_val c of
        Some d \<Rightarrow> Some (LNum neg NExpDigits m sc en (ex * 10 + d))
      | None \<Rightarrow> None)"

text \<open>A code unit read between tokens.\<close>

definition idle_step :: "token list \<Rightarrow> nat \<Rightarrow> (lex_mode \<times> token list) option" where
  "idle_step acc c =
     (if c = 32 \<or> c = 9 \<or> c = 10 \<or> c = 13 then Some (LIdle, acc)
      else if c = 123 then Some (LIdle, TLBrace # acc)
      else if c = 125 then Some (LIdle, TRBrace # acc)
      else if c = 91 then Some (LIdle, TLBracket # acc)
      else if c = 93 then Some (LIdle, TRBracket # acc)
      else if c = 58 then Some (LIdle, TColon # acc)
      else if c = 44 then Some (LIdle, TComma # acc)
      else if c = 34 then Some (LStr [], acc)
      else if c = 45 then Some (LNum True NMinus 0 0 False 0, acc)
      else if c = 48 then Some (LNum False NZero 0 0 False 0, acc)
      else if 49 \<le> c \<and> c \<le> 57 then Some (LNum False NInt (c - 48) 0 False 0, acc)
      else if c = 116 then Some (LLit (ascii ''rue'') TTrue, acc)
      else if c = 102 then Some (LLit (ascii ''alse'') TFalse, acc)
      else if c = 110 then Some (LLit (ascii ''ull'') TNull, acc)
      else None)"

text \<open>
  One code unit in any mode. The tokens read so far are kept reversed. A code unit that
  ends a number is read again as the start of what follows.
\<close>

fun lex_step :: "lex_mode \<Rightarrow> token list \<Rightarrow> nat \<Rightarrow> (lex_mode \<times> token list) option" where
  "lex_step LIdle acc c = idle_step acc c"
| "lex_step (LStr s) acc c =
     (if c = 34 then Some (LIdle, TString (rev s) # acc)
      else if c = 92 then Some (LEsc s, acc)
      else if c < 32 then None
      else Some (LStr (c # s), acc))"
| "lex_step (LEsc s) acc c =
     (if c = 34 then Some (LStr (34 # s), acc)
      else if c = 92 then Some (LStr (92 # s), acc)
      else if c = 47 then Some (LStr (47 # s), acc)
      else if c = 98 then Some (LStr (8 # s), acc)
      else if c = 102 then Some (LStr (12 # s), acc)
      else if c = 110 then Some (LStr (10 # s), acc)
      else if c = 114 then Some (LStr (13 # s), acc)
      else if c = 116 then Some (LStr (9 # s), acc)
      else if c = 117 then Some (LUni s 0 0, acc)
      else None)"
| "lex_step (LUni s k v) acc c =
     (case hex_val c of
        None \<Rightarrow> None
      | Some d \<Rightarrow>
          if k = 3 then Some (LStr ((v * 16 + d) # s), acc)
          else Some (LUni s (Suc k) (v * 16 + d), acc))"
| "lex_step (LNum neg ph m sc en ex) acc c =
     (case num_step neg ph m sc en ex c of
        Some mode \<Rightarrow> Some (mode, acc)
      | None \<Rightarrow>
          if num_accepting ph then idle_step (TNumber (num_value neg m sc en ex) # acc) c
          else None)"
| "lex_step (LLit [] t) acc c = None"
| "lex_step (LLit (x # xs) t) acc c =
     (if c = x then (if xs = [] then Some (LIdle, t # acc) else Some (LLit xs t, acc))
      else None)"

fun lex_run :: "lex_mode \<times> token list \<Rightarrow> jstr \<Rightarrow> (lex_mode \<times> token list) option" where
  "lex_run st [] = Some st"
| "lex_run (mode, acc) (c # cs) =
     (case lex_step mode acc c of None \<Rightarrow> None | Some st \<Rightarrow> lex_run st cs)"

fun lex_finish :: "lex_mode \<times> token list \<Rightarrow> token list option" where
  "lex_finish (LIdle, acc) = Some (rev acc)"
| "lex_finish (LNum neg ph m sc en ex, acc) =
     (if num_accepting ph then Some (rev (TNumber (num_value neg m sc en ex) # acc)) else None)"
| "lex_finish (mode, acc) = None"

definition tokenize :: "jstr \<Rightarrow> token list option" where
  "tokenize s = (case lex_run (LIdle, []) s of None \<Rightarrow> None | Some st \<Rightarrow> lex_finish st)"

text \<open>
  The key of an array index: the canonical decimal form of a number below \<open>2 ^ 32 - 1\<close>.
\<close>

definition index_key :: "jstr \<Rightarrow> nat option" where
  "index_key k =
     (case k of
        [] \<Rightarrow> None
      | c # cs \<Rightarrow>
          if \<not> list_all (\<lambda>d. 48 \<le> d \<and> d \<le> 57) (c # cs) \<or> (c = 48 \<and> cs \<noteq> []) then None
          else let n = foldl (\<lambda>a d. a * 10 + (d - 48)) 0 (c # cs)
               in if n < 4294967295 then Some n else None)"

text \<open>
  A new member of an object. A key the object has already keeps its place and takes the
  new value; a new array index goes among the array indices, which come first in ascending
  order; any other new key goes to the end.
\<close>

fun insert_index :: "nat \<Rightarrow> jstr \<Rightarrow> jsval \<Rightarrow> (jstr \<times> jsval) list \<Rightarrow> (jstr \<times> jsval) list" where
  "insert_index n k v [] = [(k, v)]"
| "insert_index n k v ((k', v') # rest) =
     (case index_key k' of
        Some m \<Rightarrow> if m < n then (k', v') # insert_index n k v rest else (k, v) # (k', v') # rest
      | None \<Rightarrow> (k, v) # (k', v') # rest)"

definition obj_put :: "(jstr \<times> jsval) list \<Rightarrow> jstr \<Rightarrow> jsval \<Rightarrow> (jstr \<times> jsval) list" where
  "obj_put kvs k v =
     (case map_of kvs k of
        Some old \<Rightarrow> map (\<lambda>(k', v'). if k' = k then (k', v) else (k', v')) kvs
      | None \<Rightarrow>
          (case index_key k of
             Some n \<Rightarrow> insert_index n k v kvs
           | None \<Rightarrow> kvs @ [(k, v)]))"

text \<open>
  The parser's stack: an open array with its elements so far (reversed); an open object
  with its members so far, waiting for a key or, with a key read, for the key's value.
\<close>

datatype frame =
    FArr "jsval list"
  | FObjK "(jstr \<times> jsval) list"
  | FObjV "(jstr \<times> jsval) list" jstr

datatype pmode = PValue | PValueOrEnd | PKeyOrEnd | PKey | PColon | PAfter | PDone jsval

text \<open>A value is complete: it is the result, an element of the open array, or a member.\<close>

fun give :: "jsval \<Rightarrow> frame list \<Rightarrow> (frame list \<times> pmode) option" where
  "give v [] = Some ([], PDone v)"
| "give v (FArr es # st) = Some (FArr (v # es) # st, PAfter)"
| "give v (FObjV kvs k # st) = Some (FObjK (obj_put kvs k v) # st, PAfter)"
| "give v (FObjK kvs # st) = None"

fun scalar :: "token \<Rightarrow> jsval option" where
  "scalar (TString s) = Some (JStr s)"
| "scalar (TNumber q) = Some (JNum q)"
| "scalar TTrue = Some (JBool True)"
| "scalar TFalse = Some (JBool False)"
| "scalar TNull = Some JNull"
| "scalar t = None"

definition value_step :: "frame list \<Rightarrow> token \<Rightarrow> (frame list \<times> pmode) option" where
  "value_step st t =
     (case scalar t of
        Some v \<Rightarrow> give v st
      | None \<Rightarrow>
          if t = TLBrace then Some (FObjK [] # st, PKeyOrEnd)
          else if t = TLBracket then Some (FArr [] # st, PValueOrEnd)
          else None)"

fun close_array :: "frame list \<Rightarrow> (frame list \<times> pmode) option" where
  "close_array (FArr es # st) = give (JArr (rev es)) st"
| "close_array st = None"

fun close_object :: "frame list \<Rightarrow> (frame list \<times> pmode) option" where
  "close_object (FObjK kvs # st) = give (JObj kvs) st"
| "close_object st = None"

fun key_step :: "frame list \<Rightarrow> token \<Rightarrow> (frame list \<times> pmode) option" where
  "key_step (FObjK kvs # st) (TString k) = Some (FObjV kvs k # st, PColon)"
| "key_step st t = None"

fun after_comma :: "frame list \<Rightarrow> (frame list \<times> pmode) option" where
  "after_comma (FArr es # st) = Some (FArr es # st, PValue)"
| "after_comma (FObjK kvs # st) = Some (FObjK kvs # st, PKey)"
| "after_comma st = None"

fun parse_step :: "pmode \<Rightarrow> frame list \<Rightarrow> token \<Rightarrow> (frame list \<times> pmode) option" where
  "parse_step PValue st t = value_step st t"
| "parse_step PValueOrEnd st t = (if t = TRBracket then close_array st else value_step st t)"
| "parse_step PKeyOrEnd st t = (if t = TRBrace then close_object st else key_step st t)"
| "parse_step PKey st t = key_step st t"
| "parse_step PColon st t = (if t = TColon then Some (st, PValue) else None)"
| "parse_step PAfter st t =
     (if t = TComma then after_comma st
      else if t = TRBracket then close_array st
      else if t = TRBrace then close_object st
      else None)"
| "parse_step (PDone v) st t = None"

fun parse_run :: "frame list \<times> pmode \<Rightarrow> token list \<Rightarrow> (frame list \<times> pmode) option" where
  "parse_run ps [] = Some ps"
| "parse_run (st, mode) (t # ts) =
     (case parse_step mode st t of None \<Rightarrow> None | Some ps \<Rightarrow> parse_run ps ts)"

fun parse_finish :: "frame list \<times> pmode \<Rightarrow> jsval option" where
  "parse_finish (st, PDone v) = Some v"
| "parse_finish (st, mode) = None"

definition JSON_parse :: "jstr \<Rightarrow> jsval option" where
  "JSON_parse s =
     (case tokenize s of
        None \<Rightarrow> None
      | Some ts \<Rightarrow>
          (case parse_run ([], PValue) ts of None \<Rightarrow> None | Some ps \<Rightarrow> parse_finish ps))"



section \<open>Values: truthiness and property access\<close>

text \<open>
  A parsed number is falsy when its double is zero: when the literal's value rounds to
  zero, that is, when it is at most \<open>1 / 2 ^ 1075\<close> (half the least positive double) in
  absolute value.
\<close>

fun truthy :: "jsval \<Rightarrow> bool" where
  "truthy JUndefined = False"
| "truthy JNull = False"
| "truthy (JBool b) = b"
| "truthy (JNum q) = (\<bar>q\<bar> > 1 / 2 ^ 1075)"
| "truthy (JStr s) = (s \<noteq> [])"
| "truthy (JArr xs) = True"
| "truthy (JObj kvs) = True"

text \<open>\<^verbatim>\<open>a || b\<close>\<close>

definition or_else :: "jsval \<Rightarrow> jsval \<Rightarrow> jsval" where
  "or_else a b = (if truthy a then a else b)"

definition bind_err :: "js_error + 'a \<Rightarrow> ('a \<Rightarrow> js_error + 'b) \<Rightarrow> js_error + 'b" where
  "bind_err m f = (case m of Inl e \<Rightarrow> Inl e | Inr x \<Rightarrow> f x)"

fun map_err :: "('a \<Rightarrow> js_error + 'b) \<Rightarrow> 'a list \<Rightarrow> js_error + 'b list" where
  "map_err f [] = Inr []"
| "map_err f (x # xs) =
     bind_err (f x) (\<lambda>y. bind_err (map_err f xs) (\<lambda>ys. Inr (y # ys)))"

definition cannot_read :: "jstr \<Rightarrow> jstr \<Rightarrow> js_error" where
  "cannot_read what k =
     mk_TypeError (ascii ''Cannot read properties of '' @ what @ ascii '' (reading ''
                   @ [39] @ k @ [39] @ ascii '')'')"

text \<open>
  \<^verbatim>\<open>v.k\<close> for the property names the services read (\<^verbatim>\<open>summary\<close>, \<^verbatim>\<open>corrections\<close>,
  \<^verbatim>\<open>field\<close>, \<^verbatim>\<open>generated_text\<close> and so on): none is an index, \<^verbatim>\<open>length\<close>, or a name of
  a built-in prototype, so only an object's own members answer. A decoded object has no
  key twice; of an object written with a key twice the last member answers. Reading from
  \<^verbatim>\<open>null\<close> or \<^verbatim>\<open>undefined\<close> throws a \<^verbatim>\<open>TypeError\<close>.
\<close>

fun js_get :: "jsval \<Rightarrow> jstr \<Rightarrow> js_error + jsval" where
  "js_get JUndefined k = Inl (cannot_read (ascii ''undefined'') k)"
| "js_get JNull k = Inl (cannot_read (ascii ''null'') k)"
| "js_get (JObj kvs) k = Inr (case map_of (rev kvs) k of None \<Rightarrow> JUndefined | Some v \<Rightarrow> v)"
| "js_get v k = Inr JUndefined"

text \<open>\<^verbatim>\<open>typeof v === 'object'\<close>: objects, arrays and \<^verbatim>\<open>null\<close>.\<close>

fun typeof_object :: "jsval \<Rightarrow> bool" where
  "typeof_object JNull = True"
| "typeof_object (JArr xs) = True"
| "typeof_object (JObj kvs) = True"
| "typeof_object v = False"

section \<open>The response parsers\<close>

subsection \<open>String literals of the parsers\<close>

text \<open>The Bengali literals of the two parsers, by their code units.\<close>

definition bn_summary_not_provided :: jstr where
  "bn_summary_not_provided =
     [2488, 2494, 2480, 2494, 2434, 2486, 32, 2474, 2509, 2480, 2470, 2494, 2472, 32]
     @ [2453, 2480, 2494, 32, 2489, 2479, 2492, 2472, 2495]"

definition bn_suggestion_not_provided :: jstr where
  "bn_suggestion_not_provided =
     [2474, 2480, 2494, 2478, 2480, 2509, 2486, 32, 2474, 2509, 2480, 2470, 2494, 2472]
     @ [32, 2453, 2480, 2494, 32, 2489, 2479, 2492, 2472, 2495]"

definition bn_analysis_completed :: jstr where
  "bn_analysis_completed =
     [2476, 2495, 2487, 2479, 2492, 2476, 2488, 2509, 2468, 2497, 32, 2476, 2495, 2486]
     @ [2509, 2482, 2503, 2487, 2467, 32, 2488, 2478, 2509, 2474, 2472, 2509, 2472, 32]
     @ [2489, 2479, 2492, 2503, 2459, 2503]"

definition bn_authenticity_not_provided :: jstr where
  "bn_authenticity_not_provided =
     [2488, 2468, 2509, 2479, 2468, 2494, 32, 2478, 2498, 2482, 2509, 2479, 2494, 2479]
     @ [2492, 2472, 32, 2474, 2509, 2480, 2470, 2494, 2472, 32, 2453, 2480, 2494, 32]
     @ [2489, 2479, 2492, 2472, 2495]"

definition bn_clean_summary :: jstr where
  "bn_clean_summary =
     [65, 73, 32, 2470, 2509, 2476, 2494, 2480, 2494, 32, 2476, 2495, 2486, 2509]
     @ [2482, 2503, 2487, 2467, 32, 2488, 2478, 2509, 2474, 2472, 2509, 2472, 32, 45]
     @ [32, 2476, 2495, 2487, 2479, 2492, 2476, 2488, 2509, 2468, 2497, 32, 2439, 2488]
     @ [2482, 2494, 2478, 2496, 32, 2474, 2509, 2480, 2453, 2499, 2468, 2495, 2480, 32]
     @ [2476, 2482, 2503, 32, 2478, 2472, 2503, 32, 2489, 2458, 2509, 2459, 2503]"

definition bn_clean_corrections :: jstr where
  "bn_clean_corrections =
     [2488, 2476, 32, 2468, 2469, 2509, 2479, 32, 2464, 2495, 2453, 32, 2438, 2459]
     @ [2503, 32, 45, 32, 2453, 2507, 2472, 2507, 32, 2488, 2434, 2486, 2507, 2471]
     @ [2472, 2503, 2480, 32, 2474, 2509, 2480, 2479, 2492, 2507, 2460, 2472, 32, 2472]
     @ [2503, 2439]"

definition bn_clean_authenticity :: jstr where
  "bn_clean_authenticity =
     [2476, 2495, 2487, 2479, 2492, 2476, 2488, 2509, 2468, 2497, 32, 2439, 2488, 2482]
     @ [2494, 2478, 2496, 32, 2474, 2509, 2480, 2453, 2499, 2468, 2495, 2480, 32, 2447]
     @ [2476, 2434, 32, 2488, 2468, 2509, 2479, 2468, 2494, 32, 2476, 2482, 2503, 32]
     @ [2478, 2472, 2503, 32, 2489, 2458, 2509, 2459, 2503]"

definition bn_truncated_suggestion :: jstr where
  "bn_truncated_suggestion =
     [34] @ ascii ''suggestion_bangla''
     @ [34, 58, 32, 34, 2438, 2480, 2451, 32, 2477, 2494, 2482]"

definition bn_completed_suggestion :: jstr where
  "bn_completed_suggestion =
     [34] @ ascii ''suggestion_bangla''
     @ [34, 58, 32, 34, 2438, 2480, 2451, 32, 2477, 2494, 2482, 2507, 32, 2453]
     @ [2480, 2494, 32, 2479, 2503, 2468, 2503, 32, 2474, 2494, 2480, 2503, 34]"

definition bn_verify_authenticity :: jstr where
  "bn_verify_authenticity =
     [2476, 2495, 2487, 2479, 2492, 2476, 2488, 2509, 2468, 2497, 32, 2439, 2488, 2482]
     @ [2494, 2478, 2496, 32, 2474, 2509, 2480, 2453, 2499, 2468, 2495, 2480, 32, 2476]
     @ [2482, 2503, 32, 2478, 2472, 2503, 32, 2489, 2458, 2509, 2459, 2503, 32, 45]
     @ [32, 2479, 2494, 2458, 2494, 2439, 32, 2488, 2497, 2474, 2494, 2480, 2495, 2486]
     @ [32, 2453, 2480, 2494, 32, 2489, 2458, 2509, 2459, 2503]"

definition bn_analysed_content :: jstr where
  "bn_analysed_content =
     [65, 73, 32, 2470, 2509, 2476, 2494, 2480, 2494, 32, 2476, 2495, 2486, 2509]
     @ [2482, 2503, 2487, 2495, 2468, 32, 2476, 2495, 2487, 2479, 2492, 2476, 2488, 2509]
     @ [2468, 2497, 32, 45, 32, 2476, 2495, 2487, 2479, 2492, 2476, 2488, 2509, 2468]
     @ [2497, 32, 2439, 2488, 2482, 2494, 2478, 2496, 32, 2474, 2509, 2480, 2453, 2499]
     @ [2468, 2495, 2480, 32, 2476, 2482, 2503, 32, 2478, 2472, 2503, 32, 2489, 2458]
     @ [2509, 2459, 2503]"

definition bn_unable_to_parse :: jstr where
  "bn_unable_to_parse =
     [2476, 2495, 2488, 2509, 2468, 2494, 2480, 2495, 2468, 32, 2476, 2495, 2486, 2509]
     @ [2482, 2503, 2487, 2467, 32, 2474, 2494, 2480, 2509, 2488, 32, 2453, 2480, 2468]
     @ [2503, 32, 2437, 2453, 2509, 2487, 2478, 32, 45, 32, 2478, 2509, 2479, 2494]
     @ [2472, 2497, 2479, 2492, 2494, 2482, 32, 2474, 2480, 2509, 2479, 2494, 2482, 2507]
     @ [2458, 2472, 2494, 32, 2488, 2497, 2474, 2494, 2480, 2495, 2486, 32, 2453, 2480]
     @ [2494, 32, 2489, 2458, 2509, 2459, 2503]"


definition syntax_error :: js_error where
  "syntax_error =
     \<lparr>err_kind = SyntaxError, err_status = None, err_message = ascii ''Unexpected token in JSON''\<rparr>"

text \<open>
  The message of a \<^verbatim>\<open>SyntaxError\<close> depends on the input; the parsers catch every such
  error and only log it, so one message stands for all.
\<close>

subsection \<open>The two regular expressions\<close>

text \<open>
  \<^verbatim>\<open>text.match(/\{[\s\S]*\}/)\<close>: the match starts at the first \<^verbatim>\<open>{\<close> and, the star being
  greedy, ends at the last \<^verbatim>\<open>}\<close> of the text; there is none without a \<^verbatim>\<open>}\<close> after the
  first \<^verbatim>\<open>{\<close>.
\<close>

definition json_match :: "jstr \<Rightarrow> jstr option" where
  "json_match s =
     (let t = dropWhile (\<lambda>c. c \<noteq> 123) s;
          m = rev (dropWhile (\<lambda>c. c \<noteq> 125) (rev t))
      in if m = [] then None else Some m)"

text \<open>
  The look-ahead \<^verbatim>\<open>(?=\n\s*$|\n\s*[^}]|$)\<close> at the rest \<open>u\<close> of the text. \<open>ws_then_other\<close>
  is \<^verbatim>\<open>\s*[^}]\<close>: a code unit other than \<^verbatim>\<open>}\<close>, here or after white space.
\<close>

fun ws_then_other :: "jstr \<Rightarrow> bool" where
  "ws_then_other [] = False"
| "ws_then_other (c # cs) = (c \<noteq> 125 \<or> (is_ws c \<and> ws_then_other cs))"

fun lookahead :: "jstr \<Rightarrow> bool" where
  "lookahead [] = True"
| "lookahead (c # cs) = (c = 10 \<and> (list_all is_ws cs \<or> ws_then_other cs))"

text \<open>\<^verbatim>\<open>[\s\S]*?\<close> before the look-ahead: as few code units as possible.\<close>

fun lazy_take :: "jstr \<Rightarrow> jstr" where
  "lazy_take [] = []"
| "lazy_take (c # cs) = (if lookahead (c # cs) then [] else c # lazy_take cs)"

text \<open>\<^verbatim>\<open>response.match(/\{[\s\S]*?(?=\n\s*$|\n\s*[^}]|$)/)\<close>\<close>

definition partial_match :: "jstr \<Rightarrow> jstr option" where
  "partial_match s =
     (case dropWhile (\<lambda>c. c \<noteq> 123) s of [] \<Rightarrow> None | b # rest \<Rightarrow> Some (b # lazy_take rest))"

subsection \<open>The results built from a decoded object\<close>

definition has_example_keys :: "jsval \<Rightarrow> js_error + bool" where
  "has_example_keys j =
     bind_err (js_get j (ascii ''analysis'')) (\<lambda>a.
       if \<not> truthy a then Inr False
       else bind_err (js_get j (ascii ''corrections'')) (\<lambda>c.
         if \<not> truthy c then Inr False
         else bind_err (js_get j (ascii ''summary'')) (\<lambda>s. Inr (truthy s))))"

text \<open>The function mapped over the corrections; \<^verbatim>\<open>null.field\<close> throws.\<close>

definition norm_correction :: "jsval \<Rightarrow> js_error + jsval" where
  "norm_correction c =
     (if typeof_object c then
        bind_err (js_get c (ascii ''field'')) (\<lambda>f.
        bind_err (js_get c (ascii ''issue_english'')) (\<lambda>ie.
        bind_err (js_get c (ascii ''issue_bangla'')) (\<lambda>ib.
        bind_err (js_get c (ascii ''suggestion_english'')) (\<lambda>se.
        bind_err (js_get c (ascii ''suggestion_bangla'')) (\<lambda>sb.
          Inr (JObj [(ascii ''field'', or_else f (JStr (ascii ''unknown''))),
                     (ascii ''issue_english'', or_else ie (JStr [])),
                     (ascii ''issue_bangla'', or_else ib (JStr [])),
                     (ascii ''suggestion_english'', or_else se (JStr [])),
                     (ascii ''suggestion_bangla'', or_else sb (JStr []))]))))))
      else Inr c)"

text \<open>
  The record for ``the working example format'', written out three times in the source
  (twice in Gemma3Service, once in AIService) with the same literals.
\<close>

definition working_example_result :: "jsval \<Rightarrow> js_error + analysis" where
  "working_example_result j =
     bind_err (js_get j (ascii ''summary'')) (\<lambda>s.
     bind_err (js_get s (ascii ''english'')) (\<lambda>en.
     bind_err (js_get s (ascii ''bangla'')) (\<lambda>bn.
     bind_err (js_get j (ascii ''corrections'')) (\<lambda>cs.
     bind_err (case cs of
                 JArr xs \<Rightarrow> map_err norm_correction xs
               | _ \<Rightarrow> Inr [or_else cs (JStr bn_suggestion_not_provided)]) (\<lambda>cl.
       Inr \<lparr>summary = JObj [(ascii ''english'', or_else en (JStr (ascii ''Summary not provided''))),
                            (ascii ''bangla'', or_else bn (JStr bn_summary_not_provided))],
            corrections = cl,
            authenticity = JObj [(ascii ''english'', JStr (ascii ''Content analysis completed'')),
                                 (ascii ''bangla'', JStr bn_analysis_completed)],
            confidence = JNum (8 / 10),
            source = None\<rparr>)))))"

text \<open>The ``old format'' of Gemma3Service, the ``simple format'' of AIService.\<close>

definition simple_format_result :: "jsval \<Rightarrow> js_error + analysis" where
  "simple_format_result j =
     bind_err (js_get j (ascii ''summary'')) (\<lambda>s.
     bind_err (js_get j (ascii ''corrections'')) (\<lambda>cs.
     bind_err (js_get j (ascii ''authenticity'')) (\<lambda>au.
     bind_err (js_get j (ascii ''confidence'')) (\<lambda>co.
       Inr \<lparr>summary = or_else s (JStr bn_summary_not_provided),
            corrections = (case cs of
                             JArr xs \<Rightarrow> xs
                           | _ \<Rightarrow> [or_else cs (JStr bn_suggestion_not_provided)]),
            authenticity = or_else au (JStr bn_authenticity_not_provided),
            confidence = or_else co (JNum (8 / 10)),
            source = None\<rparr>))))"

subsection \<open>The line-oriented text parser\<close>

datatype text_section = NoSection | InSummary | InCorrections | InAuthenticity

record text_acc =
  t_summary :: jstr
  t_corrections :: jstr
  t_authenticity :: jstr
  currentSection :: text_section

text \<open>The body of the \<^verbatim>\<open>for\<close> loop over the lines.\<close>

definition text_line :: "jstr \<Rightarrow> text_acc \<Rightarrow> text_acc" where
  "text_line line a =
     (let trimmedLine = trim line;
          lowerLine = toLowerCase trimmedLine
      in if js_includes lowerLine (ascii ''summary:'') \<or> js_includes lowerLine (ascii ''1. summary'')
            \<or> js_includes lowerLine (ascii ''summary'')
         then a\<lparr>currentSection := InSummary,
                t_summary := t_summary a @
                  trim (strip_header (ascii ''summary:'') (ascii ''1.'') (ascii ''summary'')
                          (ascii ''summary'') trimmedLine) @ [32]\<rparr>
         else if js_includes lowerLine (ascii ''corrections:'')
            \<or> js_includes lowerLine (ascii ''2. corrections'')
            \<or> js_includes lowerLine (ascii ''correction'')
         then a\<lparr>currentSection := InCorrections,
                t_corrections := t_corrections a @
                  trim (strip_header (ascii ''corrections:'') (ascii ''2.'') (ascii ''corrections'')
                          (ascii ''correction'') trimmedLine) @ [32]\<rparr>
         else if js_includes lowerLine (ascii ''authenticity:'')
            \<or> js_includes lowerLine (ascii ''3. authenticity'')
            \<or> js_includes lowerLine (ascii ''authenticity'')
         then a\<lparr>currentSection := InAuthenticity,
                t_authenticity := t_authenticity a @
                  trim (strip_header (ascii ''authenticity:'') (ascii ''3.'') (ascii ''authenticity'')
                          (ascii ''authenticity'') trimmedLine) @ [32]\<rparr>
         else if currentSection a \<noteq> NoSection \<and> trimmedLine \<noteq> []
         then (case currentSection a of
                 InSummary \<Rightarrow> a\<lparr>t_summary := t_summary a @ trimmedLine @ [32]\<rparr>
               | InCorrections \<Rightarrow> a\<lparr>t_corrections := t_corrections a @ trimmedLine @ [32]\<rparr>
               | InAuthenticity \<Rightarrow> a\<lparr>t_authenticity := t_authenticity a @ trimmedLine @ [32]\<rparr>
               | NoSection \<Rightarrow> a)
         else a)"

text \<open>
  The text fallback; the three defaults differ between the services (Bengali in
  Gemma3Service, English in AIService).
\<close>

definition text_parse :: "jstr \<Rightarrow> jstr \<Rightarrow> jstr \<Rightarrow> jstr \<Rightarrow> analysis" where
  "text_parse dsummary dcorrections dauthenticity response =
     (let lines = filter (\<lambda>line. trim line \<noteq> []) (split_nl [] response);
          a = fold text_line lines
                \<lparr>t_summary = [], t_corrections = [], t_authenticity = [],
                 currentSection = NoSection\<rparr>;
          cleanSummary = (if trim (t_summary a) \<noteq> [] then trim (t_summary a) else dsummary);
          cleanCorrections =
            (if trim (t_corrections a) \<noteq> [] then trim (t_corrections a) else dcorrections);
          cleanAuthenticity =
            (if trim (t_authenticity a) \<noteq> [] then trim (t_authenticity a) else dauthenticity)
      in \<lparr>summary = JStr cleanSummary,
          corrections = [JStr cleanCorrections],
          authenticity = JStr cleanAuthenticity,
          confidence = JNum (8 / 10),
          source = None\<rparr>)"

subsection \<open>Gemma3Service.parseAIResponse\<close>

text \<open>The body of the \<^verbatim>\<open>try\<close> block, for a string.\<close>

definition gemma3_parse_try :: "jstr \<Rightarrow> js_error + analysis" where
  "gemma3_parse_try response =
     (case json_match response of
        Some m \<Rightarrow>
          (case JSON_parse m of
             None \<Rightarrow> Inl syntax_error
           | Some jsonResponse \<Rightarrow>
               bind_err (has_example_keys jsonResponse) (\<lambda>b.
                 if b then working_example_result jsonResponse
                 else simple_format_result jsonResponse))
      | None \<Rightarrow>
          Inr (text_parse bn_clean_summary bn_clean_corrections bn_clean_authenticity response))"

fun strip_lit :: "jstr \<Rightarrow> jstr \<Rightarrow> jstr option" where
  "strip_lit [] s = Some s"
| "strip_lit (p # ps) [] = None"
| "strip_lit (p # ps) (c # cs) = (if c = p then strip_lit ps cs else None)"

text \<open>
  \<^verbatim>\<open>partialJson.replace(/"suggestion_bangla": "...[^"]*$/, '"suggestion_bangla": "..."')\<close>:
  the leftmost occurrence of the truncated suggestion with no \<^verbatim>\<open>"\<close> after it up to the
  end of the text is replaced, with all that follows it, by the completed suggestion.
\<close>

fun replace_truncated :: "jstr \<Rightarrow> jstr" where
  "replace_truncated [] = []"
| "replace_truncated (c # cs) =
     (case strip_lit bn_truncated_suggestion (c # cs) of
        Some r \<Rightarrow>
          if list_all (\<lambda>x. x \<noteq> 34) r then bn_completed_suggestion else c # replace_truncated cs
      | None \<Rightarrow> c # replace_truncated cs)"

definition count_unit :: "nat \<Rightarrow> jstr \<Rightarrow> nat" where
  "count_unit c s = length (filter (\<lambda>x. x = c) s)"

text \<open>
  The two \<^verbatim>\<open>for\<close> loops that append the missing \<^verbatim>\<open>]\<close> and then the missing \<^verbatim>\<open>}\<close>; a loop
  whose bound is negative does not run, as the subtraction on \<open>nat\<close> has it.
\<close>

definition close_unclosed :: "jstr \<Rightarrow> jstr" where
  "close_unclosed partialJson =
     (let openBraces = count_unit 123 partialJson;
          closeBraces = count_unit 125 partialJson;
          openBrackets = count_unit 91 partialJson;
          closeBrackets = count_unit 93 partialJson
      in partialJson @ replicate (openBrackets - closeBrackets) 93
                     @ replicate (openBraces - closeBraces) 125)"

text \<open>
  The inner \<^verbatim>\<open>try\<close> of the \<^verbatim>\<open>catch\<close> block: \<open>Inr (Some r)\<close> when it returns \<open>r\<close>,
  \<open>Inr None\<close> when it falls through, \<open>Inl e\<close> when it throws (to its own \<^verbatim>\<open>catch\<close>).
\<close>

text \<open>The \<^verbatim>\<open>if\<close> that completes a suggestion cut off in a text without any \<^verbatim>\<open>}\<close>.\<close>

definition complete_suggestion :: "jstr \<Rightarrow> jstr" where
  "complete_suggestion partialJson =
     (if js_includes partialJson bn_truncated_suggestion \<and> \<not> js_includes partialJson [125]
      then replace_truncated partialJson else partialJson)"

definition gemma3_partial_fix :: "jstr \<Rightarrow> js_error + analysis option" where
  "gemma3_partial_fix response =
     (case partial_match response of
        None \<Rightarrow> Inr None
      | Some partialJson \<Rightarrow>
          (case JSON_parse (close_unclosed (complete_suggestion partialJson)) of
             None \<Rightarrow> Inl syntax_error
           | Some fixedResponse \<Rightarrow>
               bind_err (has_example_keys fixedResponse) (\<lambda>b.
                 if b then bind_err (working_example_result fixedResponse) (\<lambda>r. Inr (Some r))
                 else Inr None)))"

definition gemma3_placeholder :: analysis where
  "gemma3_placeholder =
     \<lparr>summary = JStr bn_clean_summary,
      corrections = [JStr bn_clean_corrections],
      authenticity = JStr bn_verify_authenticity,
      confidence = JNum 0,
      source = None\<rparr>"

text \<open>
  The whole method. A response that is not a string has no \<^verbatim>\<open>substring\<close> (or, for
  \<^verbatim>\<open>null\<close> and \<^verbatim>\<open>undefined\<close>, no \<^verbatim>\<open>length\<close>): the logging at the start of the \<^verbatim>\<open>try\<close> block
  throws, and so does the logging at the start of the \<^verbatim>\<open>catch\<close> block, to the caller.
\<close>

fun Gemma3_parseAIResponse :: "jsval \<Rightarrow> js_error + analysis" where
  "Gemma3_parseAIResponse (JStr response) =
     (case gemma3_parse_try response of
        Inr r \<Rightarrow> Inr r
      | Inl error \<Rightarrow>
          (case gemma3_partial_fix response of
             Inr (Some r) \<Rightarrow> Inr r
           | Inr None \<Rightarrow> Inr gemma3_placeholder
           | Inl fixError \<Rightarrow> Inr gemma3_placeholder))"
| "Gemma3_parseAIResponse JUndefined = Inl (cannot_read (ascii ''undefined'') (ascii ''length''))"
| "Gemma3_parseAIResponse JNull = Inl (cannot_read (ascii ''null'') (ascii ''length''))"
| "Gemma3_parseAIResponse v = Inl (mk_TypeError (ascii ''response.substring is not a function''))"

subsection \<open>AIService.parseAIResponse\<close>

text \<open>The text taken from the response of the inference API.\<close>

fun ai_extract_text :: "jsval \<Rightarrow> js_error + jsval" where
  "ai_extract_text (JArr []) = Inr (JStr [])"
| "ai_extract_text (JArr (x # xs)) =
     (if x = JNull \<or> x = JUndefined then Inr (JStr [])
      else bind_err (js_get x (ascii ''generated_text'')) (\<lambda>g. Inr (or_else g (JStr []))))"
| "ai_extract_text response =
     bind_err (js_get response (ascii ''generated_text'')) (\<lambda>g.
       if truthy g then Inr g
       else (case response of JStr s \<Rightarrow> Inr (JStr s) | _ \<Rightarrow> Inr (JStr [])))"

text \<open>The inner \<^verbatim>\<open>try\<close> around \<^verbatim>\<open>JSON.parse\<close>.\<close>

definition ai_json_try :: "jstr \<Rightarrow> js_error + analysis" where
  "ai_json_try m =
     (case JSON_parse m of
        None \<Rightarrow> Inl syntax_error
      | Some jsonResponse \<Rightarrow>
          bind_err (has_example_keys jsonResponse) (\<lambda>b.
            if b then working_example_result jsonResponse
            else simple_format_result jsonResponse))"

definition ai_text_parse :: "jstr \<Rightarrow> analysis" where
  "ai_text_parse text =
     text_parse (ascii ''AI analysis completed - content appears to be Islamic in nature'')
       (ascii ''No specific corrections suggested - content appears authentic'')
       (ascii ''Content appears to be Islamic in nature and authentic'') text"

text \<open>The body of the outer \<^verbatim>\<open>try\<close>; a text that is not a string has no \<^verbatim>\<open>match\<close>.\<close>

definition ai_parse_try :: "jsval \<Rightarrow> js_error + analysis" where
  "ai_parse_try response =
     bind_err (ai_extract_text response) (\<lambda>t.
       case t of
         JStr text \<Rightarrow>
           (case json_match text of
              Some m \<Rightarrow>
                (case ai_json_try m of
                   Inr r \<Rightarrow> Inr r
                 | Inl jsonError \<Rightarrow> Inr (ai_text_parse text))
            | None \<Rightarrow> Inr (ai_text_parse text))
       | _ \<Rightarrow> Inl (mk_TypeError (ascii ''text.match is not a function'')))"

definition ai_placeholder :: analysis where
  "ai_placeholder =
     \<lparr>summary = JStr bn_analysed_content,
      corrections = [JStr bn_unable_to_parse],
      authenticity = JStr bn_verify_authenticity,
      confidence = JNum 0,
      source = None\<rparr>"

definition AI_parseAIResponse :: "jsval \<Rightarrow> js_error + analysis" where
  "AI_parseAIResponse response =
     (case ai_parse_try response of
        Inr r \<Rightarrow> Inr r
      | Inl error \<Rightarrow> Inr ai_placeholder)"



section \<open>The model clients\<close>

subsection \<open>buildPrompt\<close>

text \<open>
  The text of the template after its last placeholder: the instructions and the sample
  output. Both services carry the same template.
\<close>

definition prompt_tail :: jstr where
  "prompt_tail =
     [10, 10] @ ascii ''Check the contents for any issues and provide a summary of the c''
     @ ascii ''ontent correction and suggestions.'' @ [10]
     @ ascii ''- Do not use md styling only use with plain text.'' @ [10]
     @ ascii ''- Show the output as json format. Each correction will be as a a''
     @ ascii ''rray element.'' @ [10]
     @ ascii ''- Proive bangla and english for the correction and suggestions.'' @ [10]
     @ ascii ''- If ther is no correction need the correction array will be emp''
     @ ascii ''ty . '' @ [10] @ ascii ''- Here is a sample output struture ''
     @ [10, 10, 123, 10] @ ascii ''    '' @ [34] @ ascii ''analysis'' @ [34, 58, 32, 123, 10]
     @ ascii ''      '' @ [34] @ ascii ''title''
     @ [34, 58, 32, 34, 32, 2460, 2494, 2489, 2494, 2472, 2509, 2472, 2494, 2478]
     @ [32, 2469, 2503, 2453, 2503, 32, 2478, 2497, 2453, 2509, 2468, 2495, 34, 44] @ [10]
     @ ascii ''      '' @ [34] @ ascii ''purpose'' @ [34, 58, 32, 34]
     @ ascii ''Not specified'' @ [34, 44, 10] @ ascii ''      '' @ [34]
     @ ascii ''arabic_text''
     @ [34, 58, 32, 34, 32, 1575, 1604, 1604, 1617, 1614, 1607, 1615, 1605, 1614]
     @ [1617, 32, 1571, 1614, 1580, 1616, 1585, 1618, 1606, 1616, 1609, 32, 1605, 1616]
     @ [34, 44, 10] @ ascii ''      '' @ [34] @ ascii ''english_meaning'' @ [34, 58, 32, 34]
     @ ascii ''O Allah! Save me from the fire of Hell.'' @ [34, 44, 10] @ ascii ''      ''
     @ [34] @ ascii ''transliteration''
     @ [34, 58, 32, 34, 2438, 2482, 2509, 2482, 2494, 2489, 2497, 2478, 2509, 2478]
     @ [2494, 32, 2438, 2460, 2495, 2480, 2472, 2495, 32, 2478, 2495, 2472, 2494, 2472]
     @ [32, 2472, 2494, 2480, 2404, 34, 44, 10] @ ascii ''      '' @ [34]
     @ ascii ''native_meaning''
     @ [34, 58, 32, 34, 2489, 2503, 32, 2438, 2482, 2509, 2482, 2494, 2489, 33]
     @ [32, 2438, 2478, 2494, 2453, 2503, 34, 44, 10] @ ascii ''      '' @ [34]
     @ ascii ''source_reference'' @ [34, 58, 32, 34, 78, 47, 65, 34, 10] @ ascii ''    },''
     @ [10] @ ascii ''    '' @ [34] @ ascii ''corrections'' @ [34, 58, 32, 91, 10]
     @ ascii ''      {'' @ [10] @ ascii ''        '' @ [34] @ ascii ''field''
     @ [34, 58, 32, 34] @ ascii ''title'' @ [34, 44, 10] @ ascii ''        '' @ [34]
     @ ascii ''issue_english'' @ [34, 58, 32, 34]
     @ ascii ''Descriptive, not standard for a du'' @ [39, 97, 46, 34, 44, 10]
     @ ascii ''        '' @ [34] @ ascii ''issue_bangla''
     @ [34, 58, 32, 34, 2476, 2480, 2509, 2467, 2472, 2478, 2498, 2482, 2453, 44]
     @ [32, 2447, 2453, 2463, 2495, 32, 2470, 2497, 39, 2479, 2492, 2494, 2480, 32]
     @ [2460, 2472, 2509, 2479, 32, 2438, 2470, 2480, 2509, 2486, 32, 2472, 2479, 2492]
     @ [2404, 34, 44, 10] @ ascii ''        '' @ [34] @ ascii ''suggestion_english''
     @ [34, 58, 32, 34, 68, 117, 39] @ ascii ''a for Protection from Hellfire''
     @ [34, 44, 10] @ ascii ''        '' @ [34] @ ascii ''suggestion_bangla''
     @ [34, 58, 32, 34, 2460, 2494, 2489, 2494, 2472, 2509, 2472, 2494, 2478, 32]
     @ [2469, 2503, 2453, 2503, 32, 2488, 2497, 2480, 2453, 2509, 2487, 2494, 2480, 32]
     @ [2460, 2472, 2509, 2479, 32, 2470, 2497, 39, 2438, 34, 10] @ ascii ''      }'' @ [10]
     @ ascii ''    ],'' @ [10] @ ascii ''    '' @ [34] @ ascii ''summary''
     @ [34, 58, 32, 123, 10] @ ascii ''      '' @ [34] @ ascii ''english'' @ [34, 58, 32, 34]
     @ ascii ''The provided content contains several inaccuracies, primarily du''
     @ ascii ''e to an incomplete Arabic text. Corrections include completing t''
     @ ascii ''he Arabic and Bengali text, refining the transliteration, provid''
     @ ascii ''ing a more accurate English meaning, suggesting a better title, ''
     @ ascii ''and emphasizing the need to specify a purpose and source referen''
     @ ascii ''ce. These changes improve the content'' @ [39]
     @ ascii ''s accuracy, clarity, and usefulness.'' @ [34, 44, 10] @ ascii ''      ''
     @ [34] @ ascii ''bangla''
     @ [34, 58, 32, 34, 2474, 2509, 2480, 2470, 2468, 2509, 2468, 32, 2437, 2434]
     @ [2486, 2503, 32, 2476, 2503, 2486, 32, 2453, 2495, 2459, 2497, 32, 2477, 2497]
     @ [2482, 32, 2480, 2479, 2492, 2503, 2459, 2503, 44, 32, 2479, 2494, 2480, 32]
     @ [2474, 2509, 2480, 2471, 2494, 2472, 32, 2453, 2494, 2480, 2467, 32, 2489, 2482]
     @ [32, 2447, 2453, 2463, 2495, 32, 2437, 2488, 2478, 2509, 2474, 2498, 2480, 2509]
     @ [2467, 32, 2438, 2480, 2476, 2495, 32, 2474, 2494, 2464, 2404, 32, 2488, 2434]
     @ [2486, 2507, 2471, 2472, 2455, 2497, 2482, 2495, 2480, 32, 2478, 2471, 2509, 2479]
     @ [2503, 32, 2438, 2480, 2476, 2495, 32, 2447, 2476, 2434, 32, 2476, 2494, 2434]
     @ [2482, 2494, 32, 2474, 2494, 2464, 32, 2488, 2478, 2509, 2474, 2498, 2480, 2509]
     @ [2467, 32, 2453, 2480, 2494, 44, 32, 2474, 2509, 2480, 2468, 2495, 2476, 2480]
     @ [2509, 2467, 2496, 2453, 2480, 2467, 32, 2474, 2480, 2495, 2478, 2494, 2480, 2509]
     @ [2460, 2472, 32, 2453, 2480, 2494, 44, 32, 2438, 2480, 2451, 32, 2488, 2464]
     @ [2495, 2453, 32, 2439, 2434, 2480, 2503, 2460, 2495, 32, 2437, 2480, 2509, 2469]
     @ [32, 2474, 2509, 2480, 2470, 2494, 2472, 32, 2453, 2480, 2494, 44, 32, 2447]
     @ [2453, 2463, 2495, 32, 2477, 2494, 2482, 32, 2486, 2495, 2480, 2507, 2472, 2494]
     @ [2478, 32, 2474, 2509, 2480, 2488, 2509, 2468, 2494, 2476, 32, 2453, 2480, 2494]
     @ [32, 2447, 2476, 2434, 32, 2441, 2470, 2509, 2470, 2503, 2486, 2509, 2479, 32]
     @ [2451, 32, 2441, 2510, 2488, 32, 2441, 2482, 2509, 2482, 2503, 2454, 32, 2453]
     @ [2480, 2494, 2480, 32, 2474, 2509, 2480, 2479, 2492, 2507, 2460, 2472, 2496, 2479]
     @ [2492, 2468, 2494, 2480, 32, 2441, 2474, 2480, 32, 2460, 2507, 2480, 32, 2470]
     @ [2503, 2451, 2479, 2492, 2494, 32, 2437, 2472, 2509, 2468, 2480, 2509, 2477, 2497]
     @ [2453, 2509, 2468, 2404, 32, 2447, 2439, 32, 2474, 2480, 2495, 2476, 2480, 2509]
     @ [2468, 2472, 2455, 2497, 2482, 2495, 32, 2488, 2494, 2478, 2455, 2509, 2480, 2496]
     @ [2480, 32, 2472, 2495, 2480, 2509, 2477, 2497, 2482, 2468, 2494, 44, 32, 2488]
     @ [2509, 2474, 2487, 2509, 2463, 2468, 2494, 32, 2447, 2476, 2434, 32, 2441, 2474]
     @ [2479, 2507, 2455, 2495, 2468, 2494, 32, 2476, 2499, 2470, 2509, 2471, 2495, 32]
     @ [2453, 2480, 2503, 2404, 34, 10] @ ascii ''    }'' @ [10, 32, 32, 125, 10, 10]
     @ ascii ''output:''"


text \<open>\<^verbatim>\<open>content.field || 'default'\<close> inside the template: a missing or empty field is falsy.\<close>

definition field_or :: "jstr option \<Rightarrow> jstr \<Rightarrow> jstr" where
  "field_or f d = (case f of None \<Rightarrow> d | Some v \<Rightarrow> if v = [] then d else v)"

text \<open>
  \<^verbatim>\<open>buildPrompt(contentType, content)\<close>, the same in Gemma3Service and in AIService. The
  method does not read \<^verbatim>\<open>contentType\<close>.
\<close>

definition buildPrompt :: "jstr \<Rightarrow> contentT \<Rightarrow> jstr" where
  "buildPrompt contentType c =
     ascii ''Content to analyze:'' @ [10]
     @ ascii ''Title: '' @ field_or (title c) (ascii ''Not specified'') @ [10]
     @ ascii ''Purpose: '' @ field_or (purpose c) (ascii ''Not specified'') @ [10]
     @ ascii ''Arabic Text: '' @ field_or (arabic_text c) (ascii ''Not specified'') @ [10]
     @ ascii ''English Meaning: '' @ field_or (english_meaning c) (ascii ''Not specified'') @ [10]
     @ ascii ''Transliteration: '' @ field_or (transliteration c) (ascii ''Not specified'') @ [10]
     @ ascii ''Native Meaning: '' @ field_or (native_meaning c) (ascii ''Not specified'') @ [10]
     @ ascii ''Source Reference: '' @ field_or (source_reference c) (ascii ''N/A'')
     @ prompt_tail"

subsection \<open>The requests and the remote services\<close>

text \<open>
  The one argument of \<^verbatim>\<open>client.chat.completions.create\<close> in Gemma3Service: the body of
  the request. The source writes \<^verbatim>\<open>timeout: 45000\<close> among the members of this body; the
  second argument of \<^verbatim>\<open>create\<close>, which holds the options of the request, is not given.
\<close>

record chat_request =
  chat_model :: jstr
  chat_messages :: "(jstr \<times> jstr) list"
  chat_max_tokens :: nat
  chat_temperature :: rat
  chat_top_p :: rat
  chat_body_timeout :: nat

definition gemma3_request :: "jstr \<Rightarrow> chat_request" where
  "gemma3_request prompt =
     \<lparr>chat_model = ascii ''google/gemma-3-12b-it:featherless-ai'',
      chat_messages = [(ascii ''user'', prompt)],
      chat_max_tokens = 2000,
      chat_temperature = 3 / 10,
      chat_top_p = 9 / 10,
      chat_body_timeout = 45000\<rparr>"

text \<open>
  The arguments of \<^verbatim>\<open>axios.post\<close> in AIService: the URL, the body, and the configuration
  with the headers and the timeout of the request.
\<close>

record hf_request =
  hf_url :: jstr
  hf_inputs :: jstr
  hf_max_new_tokens :: nat
  hf_temperature :: rat
  hf_top_p :: rat
  hf_top_k :: nat
  hf_repetition_penalty :: rat
  hf_return_full_text :: bool
  hf_do_sample :: bool
  hf_authorization :: jstr
  hf_timeout :: nat

record env =
  HF_API_URL :: "jstr option"
  HF_TOKEN :: "jstr option"

definition apiUrl :: "env \<Rightarrow> jstr" where
  "apiUrl e =
     field_or (HF_API_URL e)
       (ascii ''https://api-inference.huggingface.co/models/google/gemma-3-27b-it'')"

definition ai_request :: "env \<Rightarrow> jstr \<Rightarrow> hf_request" where
  "ai_request e prompt =
     \<lparr>hf_url = apiUrl e,
      hf_inputs = prompt,
      hf_max_new_tokens = 800,
      hf_temperature = 6 / 10,
      hf_top_p = 9 / 10,
      hf_top_k = 50,
      hf_repetition_penalty = 11 / 10,
      hf_return_full_text = False,
      hf_do_sample = True,
      hf_authorization =
        ascii ''Bearer '' @ (case HF_TOKEN e of None \<Rightarrow> ascii ''undefined'' | Some t \<Rightarrow> t),
      hf_timeout = 60000\<rparr>"

datatype call = ChatCompletion chat_request | AxiosPost hf_request

subsection \<open>The world the services act on\<close>

datatype job_status = pending | processing | completed | failed

text \<open>
  A row of \<^verbatim>\<open>ai_processing_queue\<close>. The \<^verbatim>\<open>result\<close> column holds the text
  \<^verbatim>\<open>JSON.stringify(analysis)\<close>, modelled by the analysis it serialises.
\<close>

record job =
  job_id :: nat
  content_type :: jstr
  content_id :: nat
  status :: job_status
  result :: "analysis option"
  error_message :: "jstr option"
  created_at :: nat
  processed_at :: "nat option"

text \<open>
  The state outside the process: the job table, the status writes made on it so far (key
  and status of each \<^verbatim>\<open>UPDATE\<close>, in order), the analysis columns written back onto
  content rows (a log of the writes), the database clock, the requests sent over the
  network so far, and the answer the network gives to the \<open>n\<close>-th request sent (an error
  or the body of the response). Queries on the database are taken to succeed.
\<close>

record world =
  jobs :: "job list"
  status_writes :: "(jstr \<times> nat \<times> job_status) list"
  ai_columns :: "(jstr \<times> nat \<times> jsval \<times> jsval list option) list"
  db_now :: nat
  calls :: "call list"
  reply :: "nat \<Rightarrow> js_error + jsval"

text \<open>One request sent over the network, with its answer.\<close>

definition remote :: "call \<Rightarrow> world \<Rightarrow> (js_error + jsval) \<times> world" where
  "remote c w = (reply w (length (calls w)), w\<lparr>calls := calls w @ [c]\<rparr>)"

text \<open>
  \<^verbatim>\<open>client.chat.completions.create\<close>. The client library is not part of the repository; it
  is modelled after its documented behaviour. Gemma3Service constructs the client with a
  base URL and a key only, so the library's default of two retries is in force: a request
  that fails is sent again, up to two more times, when the connection failed or timed out
  (an error without a status) or the status of the answer is 408, 409, 429 or at least 500;
  the error of the last attempt is thrown. The waiting between attempts and the
  \<^verbatim>\<open>x-should-retry\<close> header of an answer are left out.
\<close>

definition maxRetries :: nat where
  "maxRetries = 2"

definition sdk_should_retry :: "js_error \<Rightarrow> bool" where
  "sdk_should_retry error \<longleftrightarrow>
     (case err_status error of
        None \<Rightarrow> True
      | Some st \<Rightarrow> st = 408 \<or> st = 409 \<or> st = 429 \<or> 500 \<le> st)"

fun sdk_request :: "nat \<Rightarrow> chat_request \<Rightarrow> world \<Rightarrow> (js_error + jsval) \<times> world" where
  "sdk_request 0 r w = remote (ChatCompletion r) w"
| "sdk_request (Suc retriesRemaining) r w =
     (case remote (ChatCompletion r) w of
        (Inr v, w1) \<Rightarrow> (Inr v, w1)
      | (Inl error, w1) \<Rightarrow>
          if sdk_should_retry error then sdk_request retriesRemaining r w1
          else (Inl error, w1))"

definition chat_create :: "chat_request \<Rightarrow> world \<Rightarrow> (js_error + jsval) \<times> world" where
  "chat_create r w = sdk_request maxRetries r w"

subsection \<open>AIService.generateAnalysis\<close>

definition unavailable_error :: js_error where
  "unavailable_error = mk_Error (ascii ''AI service temporarily unavailable'')"

text \<open>\<^verbatim>\<open>axios.post\<close> sends its request once.\<close>

definition AI_generateAnalysis ::
    "env \<Rightarrow> jstr \<Rightarrow> contentT \<Rightarrow> world \<Rightarrow> (js_error + analysis) \<times> world" where
  "AI_generateAnalysis e contentType c w =
     (let prompt = buildPrompt contentType c;
          (response, w1) = remote (AxiosPost (ai_request e prompt)) w
      in case response of
           Inl error \<Rightarrow> (Inl unavailable_error, w1)
         | Inr data \<Rightarrow>
             (case AI_parseAIResponse data of
                Inr r \<Rightarrow> (Inr r, w1)
              | Inl error \<Rightarrow> (Inl unavailable_error, w1)))"

subsection \<open>Gemma3Service.generateAnalysis\<close>

text \<open>\<^verbatim>\<open>v[0]\<close>\<close>

fun js_first :: "jsval \<Rightarrow> js_error + jsval" where
  "js_first JUndefined = Inl (cannot_read (ascii ''undefined'') (ascii ''0''))"
| "js_first JNull = Inl (cannot_read (ascii ''null'') (ascii ''0''))"
| "js_first (JArr []) = Inr JUndefined"
| "js_first (JArr (x # xs)) = Inr x"
| "js_first (JStr []) = Inr JUndefined"
| "js_first (JStr (c # cs)) = Inr (JStr [c])"
| "js_first (JObj kvs) = js_get (JObj kvs) (ascii ''0'')"
| "js_first v = Inr JUndefined"

text \<open>\<^verbatim>\<open>chatCompletion.choices[0].message.content\<close>\<close>

definition chat_content :: "jsval \<Rightarrow> js_error + jsval" where
  "chat_content chatCompletion =
     bind_err (js_get chatCompletion (ascii ''choices'')) (\<lambda>choices.
     bind_err (js_first choices) (\<lambda>choice.
     bind_err (js_get choice (ascii ''message'')) (\<lambda>message.
       js_get message (ascii ''content''))))"

text \<open>The body of the \<^verbatim>\<open>try\<close> block after the call has returned \<open>chatCompletion\<close>.\<close>

definition gemma3_read_response :: "jsval \<Rightarrow> js_error + analysis" where
  "gemma3_read_response chatCompletion =
     bind_err (chat_content chatCompletion) Gemma3_parseAIResponse"

text \<open>The condition of the fallback to AIService in the \<^verbatim>\<open>catch\<close> block.\<close>

definition is_unavailable :: "js_error \<Rightarrow> bool" where
  "is_unavailable error \<longleftrightarrow>
     err_status error = Some 503 \<or> js_includes (err_message error) (ascii ''503'')
     \<or> js_includes (err_message error) (ascii ''Service Unavailable'')"

definition Gemma3_generateAnalysis ::
    "env \<Rightarrow> jstr \<Rightarrow> contentT \<Rightarrow> world \<Rightarrow> (js_error + analysis) \<times> world" where
  "Gemma3_generateAnalysis e contentType c w =
     (let prompt = buildPrompt contentType c;
          (chatCompletion, w1) = chat_create (gemma3_request prompt) w
      in case bind_err chatCompletion gemma3_read_response of
           Inr r \<Rightarrow> (Inr r, w1)
         | Inl error \<Rightarrow>
             if is_unavailable error then AI_generateAnalysis e contentType c w1
             else (Inl unavailable_error, w1))"

section \<open>The local fallback and the draft route\<close>

definition en_title_short :: jstr where
  "en_title_short =
     ascii ''Consider making the title more descriptive (at least 5 character''
     @ ascii ''s)''"

definition bn_title_short :: jstr where
  "bn_title_short =
     [2486, 2495, 2480, 2507, 2472, 2494, 2478, 2463, 2495, 32, 2438, 2480, 2451, 32]
     @ [2476, 2480, 2509, 2467, 2472, 2494, 2478, 2498, 2482, 2453, 32, 2453, 2480, 2494]
     @ [2480, 32, 2453, 2469, 2494, 32, 2476, 2495, 2476, 2503, 2458, 2472, 2494, 32]
     @ [2453, 2480, 2497, 2472, 32, 40, 2453, 2478, 2474, 2453, 2509, 2487, 2503, 32]
     @ [2539, 2463, 2495, 32, 2437, 2453, 2509, 2487, 2480, 41]"

definition en_arabic_short :: jstr where
  "en_arabic_short =
     ascii ''Arabic text seems too short. Consider adding more content for be''
     @ ascii ''tter context''"

definition bn_arabic_short :: jstr where
  "bn_arabic_short =
     [2438, 2480, 2476, 2495, 32, 2474, 2494, 2464, 32, 2454, 2497, 2476, 32, 2459]
     @ [2507, 2463, 32, 2478, 2472, 2503, 32, 2489, 2458, 2509, 2459, 2503, 2404, 32]
     @ [2438, 2480, 2451, 32, 2477, 2494, 2482, 2507, 32, 2474, 2509, 2480, 2488, 2457]
     @ [2509, 2455, 2503, 2480, 32, 2460, 2472, 2509, 2479, 32, 2438, 2480, 2451, 32]
     @ [2476, 2495, 2487, 2479, 2492, 2476, 2488, 2509, 2468, 2497, 32, 2479, 2507, 2455]
     @ [32, 2453, 2480, 2494, 2480, 32, 2453, 2469, 2494, 32, 2476, 2495, 2476, 2503]
     @ [2458, 2472, 2494, 32, 2453, 2480, 2497, 2472]"

definition en_meaning_short :: jstr where
  "en_meaning_short =
     ascii ''Meaning/translation could be more detailed to help users underst''
     @ ascii ''and better''"

definition bn_meaning_short :: jstr where
  "bn_meaning_short =
     [2476, 2509, 2479, 2476, 2489, 2494, 2480, 2453, 2494, 2480, 2496, 2470, 2503, 2480]
     @ [32, 2438, 2480, 2451, 32, 2477, 2494, 2482, 2507, 2477, 2494, 2476, 2503, 32]
     @ [2476, 2497, 2461, 2468, 2503, 32, 2488, 2494, 2489, 2494, 2479, 2509, 2479, 32]
     @ [2453, 2480, 2494, 2480, 32, 2460, 2472, 2509, 2479, 32, 2437, 2480, 2509, 2469]
     @ [47, 2437, 2472, 2497, 2476, 2494, 2470, 32, 2438, 2480, 2451, 32, 2476, 2495]
     @ [2488, 2509, 2468, 2494, 2480, 2495, 2468, 32, 2489, 2468, 2503, 32, 2474, 2494]
     @ [2480, 2503]"

definition en_arabic_required :: jstr where
  "en_arabic_required =
     ascii ''Arabic text is required for duas''"

definition bn_arabic_required :: jstr where
  "bn_arabic_required =
     [2470, 2497, 2438, 2480, 32, 2460, 2472, 2509, 2479, 32, 2438, 2480, 2476, 2495]
     @ [32, 2474, 2494, 2464, 32, 2474, 2509, 2480, 2479, 2492, 2507, 2460, 2472]"

definition en_meaning_important :: jstr where
  "en_meaning_important =
     ascii ''Meaning/translation is important for duas''"

definition bn_meaning_important :: jstr where
  "bn_meaning_important =
     [2470, 2497, 2438, 2480, 32, 2460, 2472, 2509, 2479, 32, 2437, 2480, 2509, 2469]
     @ [47, 2437, 2472, 2497, 2476, 2494, 2470, 32, 2455, 2497, 2480, 2497, 2468, 2509]
     @ [2476, 2474, 2498, 2480, 2509, 2467]"

definition en_blog_short :: jstr where
  "en_blog_short =
     ascii ''Blog content should be more substantial (at least 100 characters'' @ ascii '')''"

definition bn_blog_short :: jstr where
  "bn_blog_short =
     [2476, 2509, 2482, 2455, 32, 2476, 2495, 2487, 2479, 2492, 2476, 2488, 2509, 2468]
     @ [2497, 32, 2438, 2480, 2451, 32, 2455, 2497, 2480, 2497, 2468, 2509, 2476, 2474]
     @ [2498, 2480, 2509, 2467, 32, 2489, 2451, 2479, 2492, 2494, 32, 2441, 2458, 2495]
     @ [2468, 32, 40, 2453, 2478, 2474, 2453, 2509, 2487, 2503, 32, 2535, 2534, 2534]
     @ [2463, 2495, 32, 2437, 2453, 2509, 2487, 2480, 41]"

definition en_looks_good :: jstr where
  "en_looks_good =
     ascii ''Content structure looks good''"

definition bn_looks_good :: jstr where
  "bn_looks_good =
     [2476, 2495, 2487, 2479, 2492, 2476, 2488, 2509, 2468, 2497, 2480, 32, 2453, 2494]
     @ [2464, 2494, 2478, 2507, 32, 2477, 2494, 2482, 2507]"

definition en_more_context :: jstr where
  "en_more_context =
     ascii ''Consider adding more context or examples if applicable''"

definition bn_more_context :: jstr where
  "bn_more_context =
     [2474, 2509, 2480, 2479, 2507, 2460, 2509, 2479, 32, 2489, 2482, 2503, 32, 2438]
     @ [2480, 2451, 32, 2474, 2509, 2480, 2488, 2457, 2509, 2455, 32, 2476, 2494, 32]
     @ [2441, 2470, 2494, 2489, 2480, 2467, 32, 2479, 2507, 2455, 32, 2453, 2480, 2494]
     @ [2480, 32, 2453, 2469, 2494, 32, 2476, 2495, 2476, 2503, 2458, 2472, 2494, 32]
     @ [2453, 2480, 2497, 2472]"

definition bn_local_summary_prefix :: jstr where
  "bn_local_summary_prefix =
     [2488, 2509, 2469, 2494, 2472, 2496, 2479, 2492, 32, 2479, 2494, 2458, 2494, 2439]
     @ [32, 2476, 2509, 2479, 2476, 2489, 2494, 2480, 32, 2453, 2480, 2503, 32]"

definition bn_local_summary_suffix :: jstr where
  "bn_local_summary_suffix =
     [32, 2476, 2495, 2487, 2479, 2492, 2476, 2488, 2509, 2468, 2497, 2480, 32, 2478]
     @ [2508, 2482, 2495, 2453, 32, 2476, 2495, 2486, 2509, 2482, 2503, 2487, 2467, 32]
     @ [2488, 2478, 2509, 2474, 2472, 2509, 2472, 32, 2489, 2479, 2492, 2503, 2459, 2503]
     @ [2404]"

definition bn_local_authenticity :: jstr where
  "bn_local_authenticity =
     [2476, 2495, 2487, 2479, 2492, 2476, 2488, 2509, 2468, 2497, 32, 2488, 2464, 2495]
     @ [2453, 2477, 2494, 2476, 2503, 32, 2475, 2480, 2478, 2509, 2479, 2494, 2463, 32]
     @ [2453, 2480, 2494, 32, 2489, 2479, 2492, 2503, 2459, 2503, 2404, 32, 2476, 2495]
     @ [2488, 2509, 2468, 2494, 2480, 2495, 2468, 32, 2439, 2488, 2482, 2494, 2478, 2496]
     @ [32, 2488, 2468, 2509, 2479, 2468, 2494, 32, 2479, 2494, 2458, 2494, 2439, 2479]
     @ [2492, 2503, 2480, 32, 2460, 2472, 2509, 2479, 44, 32, 2476, 2494, 2489, 2509]
     @ [2479, 2495, 2453] @ ascii '' AI ''
     @ [2474, 2480, 2495, 2487, 2503, 2476, 2494, 32, 2476, 2480, 2509, 2468, 2478, 2494]
     @ [2472, 2503, 32, 2437, 2472, 2497, 2474, 2482, 2476, 2509, 2471, 2404]"


text \<open>\<^verbatim>\<open>content.f && content.f.length < n\<close>\<close>

definition present_and_shorter :: "jstr option \<Rightarrow> nat \<Rightarrow> bool" where
  "present_and_shorter f n = (case f of None \<Rightarrow> False | Some v \<Rightarrow> v \<noteq> [] \<and> length v < n)"

text \<open>\<^verbatim>\<open>!content.f\<close>\<close>

definition falsy_field :: "jstr option \<Rightarrow> bool" where
  "falsy_field f = (case f of None \<Rightarrow> True | Some v \<Rightarrow> v = [])"

definition local_suggestions :: "jstr \<Rightarrow> contentT \<Rightarrow> jstr list" where
  "local_suggestions contentType c =
     (let s1 = (if present_and_shorter (title c) 5 then [en_title_short] else []);
          s2 = (if present_and_shorter (arabic_text c) 10 then [en_arabic_short] else []);
          s3 = (if present_and_shorter (meaning c) 20 then [en_meaning_short] else []);
          s4 = (if contentType = ascii ''dua''
                then (if falsy_field (arabic_text c) then [en_arabic_required] else [])
                     @ (if falsy_field (meaning c) then [en_meaning_important] else [])
                else []);
          s5 = (if contentType = ascii ''blog''
                then (if falsy_field (content c) \<or> present_and_shorter (content c) 100
                      then [en_blog_short] else [])
                else []);
          suggestions = s1 @ s2 @ s3 @ s4 @ s5
      in if suggestions = [] then [en_looks_good, en_more_context] else suggestions)"

definition banglaTranslations :: "(jstr \<times> jstr) list" where
  "banglaTranslations =
     [(en_title_short, bn_title_short),
      (en_arabic_short, bn_arabic_short),
      (en_meaning_short, bn_meaning_short),
      (en_arabic_required, bn_arabic_required),
      (en_meaning_important, bn_meaning_important),
      (en_blog_short, bn_blog_short),
      (en_looks_good, bn_looks_good),
      (en_more_context, bn_more_context)]"

text \<open>\<^verbatim>\<open>banglaTranslations[suggestion] || suggestion\<close>\<close>

definition translate :: "jstr \<Rightarrow> jstr" where
  "translate suggestion =
     (case map_of banglaTranslations suggestion of
        None \<Rightarrow> suggestion
      | Some b \<Rightarrow> if b = [] then suggestion else b)"

definition generateLocalFallbackAnalysis :: "jstr \<Rightarrow> contentT \<Rightarrow> analysis" where
  "generateLocalFallbackAnalysis contentType c =
     \<lparr>summary = JStr (bn_local_summary_prefix @ contentType @ bn_local_summary_suffix),
      corrections = map (\<lambda>suggestion. JStr (translate suggestion)) (local_suggestions contentType c),
      authenticity = JStr bn_local_authenticity,
      confidence = JNum (6 / 10),
      source = Some (ascii ''local_fallback'')\<rparr>"

text \<open>
  \<^verbatim>\<open>POST /analyze-draft\<close>, after authentication: the status code and the body of the
  response (an error message, or the status \<^verbatim>\<open>'completed'\<close> with the analysis).
\<close>

datatype draft_body = ErrorBody jstr | AnalysisBody jstr analysis

definition valid_content_type :: "jstr \<Rightarrow> bool" where
  "valid_content_type contentType \<longleftrightarrow>
     contentType \<in> set [ascii ''dua'', ascii ''blog'', ascii ''question'', ascii ''answer'']"

definition analyze_draft ::
    "env \<Rightarrow> jstr \<Rightarrow> contentT option \<Rightarrow> world \<Rightarrow> (nat \<times> draft_body) \<times> world" where
  "analyze_draft e contentType body_content w =
     (if \<not> valid_content_type contentType
      then ((400, ErrorBody (ascii ''Invalid content type'')), w)
      else case body_content of
        None \<Rightarrow> ((400, ErrorBody (ascii ''Content is required for analysis'')), w)
      | Some c \<Rightarrow>
          if falsy_field (title c) \<and> falsy_field (arabic_text c)
          then ((400, ErrorBody (ascii ''Content is required for analysis'')), w)
          else
            (case Gemma3_generateAnalysis e contentType c w of
               (Inr a, w1) \<Rightarrow> ((200, AnalysisBody (ascii ''completed'') a), w1)
             | (Inl gemma3Error, w1) \<Rightarrow>
                 (case AI_generateAnalysis e contentType c w1 of
                    (Inr a, w2) \<Rightarrow> ((200, AnalysisBody (ascii ''completed'') a), w2)
                  | (Inl aiError, w2) \<Rightarrow>
                      ((200, AnalysisBody (ascii ''completed'')
                               (generateLocalFallbackAnalysis contentType c)), w2))))"

section \<open>Jobs\<close>

subsection \<open>The status writes\<close>

text \<open>
  The three \<^verbatim>\<open>UPDATE ai_processing_queue SET ... WHERE content_id = $n AND content_type = $m\<close>
  statements: each writes every row of the key, and is entered in the log of status
  writes.
\<close>

definition same_key :: "jstr \<Rightarrow> nat \<Rightarrow> job \<Rightarrow> bool" where
  "same_key contentType contentId j \<longleftrightarrow> content_id j = contentId \<and> content_type j = contentType"

definition mark_processing :: "jstr \<Rightarrow> nat \<Rightarrow> world \<Rightarrow> world" where
  "mark_processing contentType contentId w =
     w\<lparr>jobs := map (\<lambda>j. if same_key contentType contentId j
                          then j\<lparr>status := processing\<rparr> else j) (jobs w),
       status_writes := status_writes w @ [(contentType, contentId, processing)]\<rparr>"

definition mark_completed :: "jstr \<Rightarrow> nat \<Rightarrow> analysis \<Rightarrow> world \<Rightarrow> world" where
  "mark_completed contentType contentId a w =
     w\<lparr>jobs := map (\<lambda>j. if same_key contentType contentId j
                          then j\<lparr>status := completed, result := Some a,
                                 processed_at := Some (db_now w)\<rparr>
                          else j) (jobs w),
       status_writes := status_writes w @ [(contentType, contentId, completed)]\<rparr>"

definition mark_failed :: "jstr \<Rightarrow> nat \<Rightarrow> jstr \<Rightarrow> world \<Rightarrow> world" where
  "mark_failed contentType contentId msg w =
     w\<lparr>jobs := map (\<lambda>j. if same_key contentType contentId j
                          then j\<lparr>status := failed, error_message := Some msg,
                                 processed_at := Some (db_now w)\<rparr>
                          else j) (jobs w),
       status_writes := status_writes w @ [(contentType, contentId, failed)]\<rparr>"

text \<open>
  \<^verbatim>\<open>INSERT INTO ai_processing_queue (content_type, content_id, status) VALUES ($1, $2,
  'pending') ON CONFLICT DO NOTHING\<close>: the table has no unique constraint besides its
  generated primary key, so the row is always added.
\<close>

definition insert_pending :: "jstr \<Rightarrow> nat \<Rightarrow> world \<Rightarrow> world" where
  "insert_pending contentType contentId w =
     w\<lparr>jobs := jobs w @
          [\<lparr>job_id = (if jobs w = [] then 0 else Suc (Max (set (map job_id (jobs w))))),
            content_type = contentType, content_id = contentId, status = pending,
            result = None, error_message = None, created_at = db_now w,
            processed_at = None\<rparr>]\<rparr>"

text \<open>\<^verbatim>\<open>POST /analyze/:contentType/:contentId\<close>, given the outcome of the access check.\<close>

definition trigger_analysis :: "jstr \<Rightarrow> nat \<Rightarrow> bool \<Rightarrow> world \<Rightarrow> nat \<times> world" where
  "trigger_analysis contentType contentId hasAccess w =
     (if \<not> valid_content_type contentType then (400, w)
      else if \<not> hasAccess then (403, w)
      else (200, insert_pending contentType contentId w))"

subsection \<open>Gemma3Service.processContent\<close>

text \<open>
  The content tables, read only: the row of a content type and id, if there is one.
  \<^verbatim>\<open>getContent\<close> selects the columns of the analysis for the type.
\<close>

type_synonym tables = "jstr \<Rightarrow> nat \<Rightarrow> contentT option"

definition no_content :: contentT where
  "no_content =
     \<lparr>title = None, purpose = None, arabic_text = None, english_meaning = None,
      transliteration = None, native_meaning = None, source_reference = None,
      content = None, meaning = None\<rparr>"

definition getContent :: "tables \<Rightarrow> jstr \<Rightarrow> nat \<Rightarrow> js_error + contentT option" where
  "getContent t contentType contentId =
     (if contentType = ascii ''dua'' then
        Inr (map_option (\<lambda>r. r\<lparr>content := None, meaning := None\<rparr>) (t contentType contentId))
      else if contentType = ascii ''blog'' \<or> contentType = ascii ''question'' then
        Inr (map_option (\<lambda>r. no_content\<lparr>title := title r, content := content r\<rparr>)
               (t contentType contentId))
      else if contentType = ascii ''answer'' then
        Inr (map_option (\<lambda>r. no_content\<lparr>content := content r\<rparr>) (t contentType contentId))
      else Inl (mk_Error (ascii ''Invalid content type'')))"

definition updateContentWithAI :: "jstr \<Rightarrow> nat \<Rightarrow> analysis \<Rightarrow> world \<Rightarrow> js_error + world" where
  "updateContentWithAI contentType contentId a w =
     (if contentType = ascii ''dua'' then
        Inr (w\<lparr>ai_columns := ai_columns w @
                  [(contentType, contentId, summary a, Some (corrections a))]\<rparr>)
      else if contentType = ascii ''blog'' \<or> contentType = ascii ''question''
              \<or> contentType = ascii ''answer'' then
        Inr (w\<lparr>ai_columns := ai_columns w @ [(contentType, contentId, summary a, None)]\<rparr>)
      else Inl (mk_Error (ascii ''Invalid content type for update'')))"

text \<open>
  The body of the \<^verbatim>\<open>try\<close> block. The promise of \<^verbatim>\<open>generateAnalysisWithQueue\<close> settles
  with the outcome of the \<^verbatim>\<open>generateAnalysis\<close> call the queue makes for the request, so
  the call stands for the queued one. The state is returned with an error as well: the
  writes made before the throw stay.
\<close>

definition process_try ::
    "env \<Rightarrow> tables \<Rightarrow> jstr \<Rightarrow> nat \<Rightarrow> world \<Rightarrow> (js_error + analysis) \<times> world" where
  "process_try e t contentType contentId w =
     (let w1 = mark_processing contentType contentId w
      in case getContent t contentType contentId of
           Inl error \<Rightarrow> (Inl error, w1)
         | Inr None \<Rightarrow> (Inl (mk_Error (ascii ''Content not found'')), w1)
         | Inr (Some c) \<Rightarrow>
             (case Gemma3_generateAnalysis e contentType c w1 of
                (Inl error, w2) \<Rightarrow> (Inl error, w2)
              | (Inr a, w2) \<Rightarrow>
                  (case updateContentWithAI contentType contentId a w2 of
                     Inl error \<Rightarrow> (Inl error, w2)
                   | Inr w3 \<Rightarrow> (Inr a, mark_completed contentType contentId a w3))))"

definition processContent ::
    "env \<Rightarrow> tables \<Rightarrow> jstr \<Rightarrow> nat \<Rightarrow> world \<Rightarrow> (js_error + analysis) \<times> world" where
  "processContent e t contentType contentId w =
     (case process_try e t contentType contentId w of
        (Inr a, w1) \<Rightarrow> (Inr a, w1)
      | (Inl error, w1) \<Rightarrow>
          (Inl error, mark_failed contentType contentId (err_message error) w1))"

subsection \<open>QueueService.addAIAnalysisJob\<close>

text \<open>The options of a job added to the broker's queue.\<close>

record broker_job =
  bj_contentType :: jstr
  bj_contentId :: nat
  bj_priority :: nat
  bj_attempts :: nat
  bj_backoff_delay :: nat
  bj_removeOnComplete :: nat
  bj_removeOnFail :: nat

datatype job_handle = InlineResult analysis | BrokerJob broker_job

text \<open>
  \<open>inline\<close> is the condition \<^verbatim>\<open>!this.aiQueue || !this.isQueueEnabled\<close>, fixed by the
  constructor. With a broker the job is added to the broker's queue, which is outside the
  model; the call returns the job it added.
\<close>

definition addAIAnalysisJob ::
    "bool \<Rightarrow> env \<Rightarrow> tables \<Rightarrow> jstr \<Rightarrow> nat \<Rightarrow> jstr \<Rightarrow> world \<Rightarrow> (js_error + job_handle) \<times> world" where
  "addAIAnalysisJob inline e t contentType contentId priority w =
     (if inline then
        (case processContent e t contentType contentId (mark_processing contentType contentId w) of
           (Inr r, w1) \<Rightarrow> (Inr (InlineResult r), mark_completed contentType contentId r w1)
         | (Inl error, w1) \<Rightarrow>
             (Inl error, mark_failed contentType contentId (err_message error) w1))
      else
        (Inr (BrokerJob
           \<lparr>bj_contentType = contentType, bj_contentId = contentId,
            bj_priority = (if priority = ascii ''high'' then 1
                           else if priority = ascii ''low'' then 3 else 2),
            bj_attempts = 3, bj_backoff_delay = 2000,
            bj_removeOnComplete = 10, bj_removeOnFail = 5\<rparr>), w))"

section \<open>Concrete inputs\<close>

text \<open>An environment without settings, and a network on which every call fails with 503.\<close>

definition env0 :: env where
  "env0 = \<lparr>HF_API_URL = None, HF_TOKEN = None\<rparr>"

definition error_503 :: js_error where
  "error_503 =
     \<lparr>err_kind = ApiError, err_status = Some 503, err_message = ascii ''Service Unavailable''\<rparr>"

definition unreachable :: "nat \<Rightarrow> js_error + jsval" where
  "unreachable n = Inl error_503"

definition w_unreachable :: world where
  "w_unreachable = \<lparr>jobs = [], status_writes = [], ai_columns = [], db_now = 0, calls = [],
      reply = unreachable\<rparr>"

subsection \<open>The queue\<close>

text \<open>What a run of the queue shows: the starts, the returns and the pending timers.\<close>

definition q_log :: "qstate \<Rightarrow> (nat \<times> nat) list \<times> (nat \<times> nat) list \<times> nat list" where
  "q_log s = (started s, finished s, timers s)"

text \<open>
  Two requests are enqueued together; the first call returns after 5000 ms, which sets the
  timer for the second; 10 ms later a third request is enqueued.
\<close>

definition cooldown_trace :: "event list" where
  "cooldown_trace =
     [Enqueue (ascii ''dua'') no_content, Enqueue (ascii ''dua'') no_content, Tick 5000,
      Return 0 (Rejected unavailable_error), Tick 10, Enqueue (ascii ''dua'') no_content]"

text \<open>The slot is taken exactly while one call is in flight.\<close>

definition q_inv :: "qstate \<Rightarrow> bool" where
  "q_inv s \<longleftrightarrow>
     (isProcessing s \<longrightarrow> length (inflight s) = 1) \<and> (\<not> isProcessing s \<longrightarrow> inflight s = [])"

text \<open>The promises started, followed by those waiting, are the promises created, in order.\<close>

definition fifo_inv :: "qstate \<Rightarrow> bool" where
  "fifo_inv s \<longleftrightarrow>
     map fst (started s) @ map req_promise (requestQueue s) = [0 ..< nextPromise s]"

subsection \<open>Jobs\<close>

text \<open>Content tables without rows, and a world whose job table has one row, for dua 42.\<close>

definition no_tables :: tables where
  "no_tables contentType contentId = None"

definition job1 :: "job_status \<Rightarrow> job" where
  "job1 st =
     \<lparr>job_id = 0, content_type = ascii ''dua'', content_id = 42, status = st, result = None,
      error_message = None, created_at = 0, processed_at = None\<rparr>"

definition w_job :: "job_status \<Rightarrow> world" where
  "w_job st = \<lparr>jobs = [job1 st], status_writes = [], ai_columns = [], db_now = 7, calls = [],
      reply = unreachable\<rparr>"

text \<open>
  A job table with three rows: a completed and a pending row for dua 42, and between them
  a pending row for blog 5.
\<close>

definition w_jobs3 :: world where
  "w_jobs3 =
     \<lparr>jobs = [job1 completed,
              \<lparr>job_id = 1, content_type = ascii ''blog'', content_id = 5, status = pending,
               result = None, error_message = None, created_at = 3, processed_at = None\<rparr>,
              \<lparr>job_id = 2, content_type = ascii ''dua'', content_id = 42, status = pending,
               result = None, error_message = None, created_at = 6, processed_at = None\<rparr>],
      status_writes = [], ai_columns = [], db_now = 7, calls = [], reply = unreachable\<rparr>"

text \<open>
  The status of a row after a write of \<open>st\<close> on the key: \<open>st\<close> for a row of the key, and
  for any other row the status it had. The key of a row.
\<close>

definition set_status :: "jstr \<Rightarrow> nat \<Rightarrow> job_status \<Rightarrow> job \<Rightarrow> job_status" where
  "set_status ct cid st j = (if same_key ct cid j then st else status j)"

definition job_key :: "job \<Rightarrow> jstr \<times> nat" where
  "job_key j = (content_type j, content_id j)"

subsection \<open>Content\<close>

text \<open>A blog post as \<^verbatim>\<open>getContent\<close> returns it: a title and a body.\<close>

definition blog_post :: contentT where
  "blog_post = no_content\<lparr>title := Some (ascii ''Patience''),
                           content := Some (ascii ''Fasting teaches patience and gratitude.'')\<rparr>"

text \<open>The draft of a dua with an empty title and the Arabic text \<^verbatim>\<open>x\<close>.\<close>

definition draft_dua :: contentT where
  "draft_dua = no_content\<lparr>title := Some [], arabic_text := Some (ascii ''x'')\<rparr>"

subsection \<open>Responses\<close>



















section \<open>Properties\<close>

subsection \<open>The remote calls of the model clients\<close>

lemma AI_generateAnalysis_world:
  "snd (AI_generateAnalysis e ct c w) =
     w\<lparr>calls := calls w @ [AxiosPost (ai_request e (buildPrompt ct c))]\<rparr>"
  by (simp add: AI_generateAnalysis_def remote_def Let_def split: sum.splits)

lemma calls_AI_generateAnalysis:
  "calls (snd (AI_generateAnalysis e ct c w)) =
     calls w @ [AxiosPost (ai_request e (buildPrompt ct c))]"
  by (simp add: AI_generateAnalysis_world)

lemma jobs_AI_generateAnalysis: "jobs (snd (AI_generateAnalysis e ct c w)) = jobs w"
  by (simp add: AI_generateAnalysis_world)

lemma db_now_AI_generateAnalysis: "db_now (snd (AI_generateAnalysis e ct c w)) = db_now w"
  by (simp add: AI_generateAnalysis_world)

lemma is_unavailable_503: "is_unavailable error_503"
  by (simp add: is_unavailable_def error_503_def)

lemma sdk_request_sends:
  "\<exists>k. 1 \<le> k \<and> k \<le> Suc n
      \<and> snd (sdk_request n r w) = w\<lparr>calls := calls w @ replicate k (ChatCompletion r)\<rparr>
      \<and> (\<forall>i < k - 1. \<exists>err. reply w (length (calls w) + i) = Inl err \<and> sdk_should_retry err)
      \<and> fst (sdk_request n r w) = reply w (length (calls w) + (k - 1))
      \<and> (k \<le> n \<longrightarrow> (\<forall>err. fst (sdk_request n r w) = Inl err \<longrightarrow> \<not> sdk_should_retry err))"
proof (induction n arbitrary: w)
  case 0
  have "snd (sdk_request 0 r w) = w\<lparr>calls := calls w @ replicate 1 (ChatCompletion r)\<rparr>"
    by (simp add: remote_def)
  moreover have "fst (sdk_request 0 r w) = reply w (length (calls w) + (1 - 1))"
    by (simp add: remote_def)
  ultimately show ?case by (intro exI [of _ 1]) simp
next
  case (Suc n)
  let ?w1 = "w\<lparr>calls := calls w @ [ChatCompletion r]\<rparr>"
  show ?case
  proof (cases "reply w (length (calls w))")
    case (Inr v)
    then have "sdk_request (Suc n) r w = (Inr v, ?w1)" by (simp add: remote_def)
    then show ?thesis using Inr by (intro exI [of _ 1]) simp
  next
    case (Inl err)
    show ?thesis
    proof (cases "sdk_should_retry err")
      case False
      with Inl have "sdk_request (Suc n) r w = (Inl err, ?w1)" by (simp add: remote_def)
      then show ?thesis using Inl False by (intro exI [of _ 1]) simp
    next
      case True
      with Inl have s: "sdk_request (Suc n) r w = sdk_request n r ?w1" by (simp add: remote_def)
      from Suc.IH [of ?w1] obtain k where k: "1 \<le> k" "k \<le> Suc n"
        and w: "snd (sdk_request n r ?w1) = ?w1\<lparr>calls := calls ?w1 @ replicate k (ChatCompletion r)\<rparr>"
        and f: "\<forall>i < k - 1. \<exists>err. reply ?w1 (length (calls ?w1) + i) = Inl err \<and> sdk_should_retry err"
        and l: "fst (sdk_request n r ?w1) = reply ?w1 (length (calls ?w1) + (k - 1))"
        and x: "k \<le> n \<longrightarrow> (\<forall>err. fst (sdk_request n r ?w1) = Inl err \<longrightarrow> \<not> sdk_should_retry err)"
        by blast
      have a: "snd (sdk_request (Suc n) r w) =
                 w\<lparr>calls := calls w @ replicate (Suc k) (ChatCompletion r)\<rparr>"
        unfolding s using w by simp
      have b: "\<forall>i < Suc k - 1. \<exists>err. reply w (length (calls w) + i) = Inl err \<and> sdk_should_retry err"
      proof (intro allI impI)
        fix i assume i: "i < Suc k - 1"
        show "\<exists>err. reply w (length (calls w) + i) = Inl err \<and> sdk_should_retry err"
        proof (cases i)
          case 0
          with Inl True show ?thesis by simp
        next
          case (Suc i')
          with i have "i' < k - 1" by simp
          with f have "\<exists>err. reply ?w1 (length (calls ?w1) + i') = Inl err \<and> sdk_should_retry err"
            by blast
          with Suc show ?thesis by simp
        qed
      qed
      have c: "fst (sdk_request (Suc n) r w) = reply w (length (calls w) + (Suc k - 1))"
        unfolding s using l k by simp
      have d: "Suc k \<le> Suc n \<longrightarrow>
                 (\<forall>err. fst (sdk_request (Suc n) r w) = Inl err \<longrightarrow> \<not> sdk_should_retry err)"
        unfolding s using x by simp
      from k a b c d show ?thesis by (intro exI [of _ "Suc k"]) simp
    qed
  qed
qed

lemma chat_create_sends:
  "\<exists>k. 1 \<le> k \<and> k \<le> 3
      \<and> snd (chat_create r w) = w\<lparr>calls := calls w @ replicate k (ChatCompletion r)\<rparr>
      \<and> (\<forall>i < k - 1. \<exists>err. reply w (length (calls w) + i) = Inl err \<and> sdk_should_retry err)
      \<and> fst (chat_create r w) = reply w (length (calls w) + (k - 1))
      \<and> (k < 3 \<longrightarrow> (\<forall>err. fst (chat_create r w) = Inl err \<longrightarrow> \<not> sdk_should_retry err))"
proof -
  from sdk_request_sends [of 2 r w] obtain k where
    "1 \<le> k \<and> k \<le> Suc 2
      \<and> snd (sdk_request 2 r w) = w\<lparr>calls := calls w @ replicate k (ChatCompletion r)\<rparr>
      \<and> (\<forall>i < k - 1. \<exists>err. reply w (length (calls w) + i) = Inl err \<and> sdk_should_retry err)
      \<and> fst (sdk_request 2 r w) = reply w (length (calls w) + (k - 1))
      \<and> (k \<le> 2 \<longrightarrow> (\<forall>err. fst (sdk_request 2 r w) = Inl err \<longrightarrow> \<not> sdk_should_retry err))"
    by blast
  then show ?thesis by (intro exI [of _ k]) (simp add: chat_create_def maxRetries_def)
qed

lemma chat_create_world:
  "\<exists>k. 1 \<le> k \<and> k \<le> 3
      \<and> snd (chat_create r w) = w\<lparr>calls := calls w @ replicate k (ChatCompletion r)\<rparr>"
  using chat_create_sends [of r w] by blast


lemma Gemma3_generateAnalysis_world:
  "\<exists>k n. 1 \<le> k \<and> k \<le> 3 \<and> n \<le> 1
      \<and> snd (Gemma3_generateAnalysis e ct c w) =
          w\<lparr>calls := calls w @ replicate k (ChatCompletion (gemma3_request (buildPrompt ct c)))
                              @ replicate n (AxiosPost (ai_request e (buildPrompt ct c)))\<rparr>"
proof -
  let ?r = "gemma3_request (buildPrompt ct c)"
  obtain k where k: "1 \<le> k" "k \<le> 3"
    and w1: "snd (chat_create ?r w) = w\<lparr>calls := calls w @ replicate k (ChatCompletion ?r)\<rparr>"
    using chat_create_world by blast
  obtain res where c: "chat_create ?r w = (res, w\<lparr>calls := calls w @ replicate k (ChatCompletion ?r)\<rparr>)"
    using w1 by (cases "chat_create ?r w") simp
  show ?thesis
  proof (cases "bind_err res gemma3_read_response")
    case (Inr a)
    with c have "snd (Gemma3_generateAnalysis e ct c w) =
       w\<lparr>calls := calls w @ replicate k (ChatCompletion ?r)
            @ replicate 0 (AxiosPost (ai_request e (buildPrompt ct c)))\<rparr>"
      by (simp add: Gemma3_generateAnalysis_def Let_def)
    with k show ?thesis by (intro exI [of _ k] exI [of _ 0]) simp
  next
    case (Inl err)
    show ?thesis
    proof (cases "is_unavailable err")
      case True
      with Inl c have "snd (Gemma3_generateAnalysis e ct c w) =
         w\<lparr>calls := calls w @ replicate k (ChatCompletion ?r)
              @ replicate 1 (AxiosPost (ai_request e (buildPrompt ct c)))\<rparr>"
        by (simp add: Gemma3_generateAnalysis_def Let_def AI_generateAnalysis_world)
      with k show ?thesis by (intro exI [of _ k] exI [of _ 1]) simp
    next
      case False
      with Inl c have "snd (Gemma3_generateAnalysis e ct c w) =
         w\<lparr>calls := calls w @ replicate k (ChatCompletion ?r)
              @ replicate 0 (AxiosPost (ai_request e (buildPrompt ct c)))\<rparr>"
        by (simp add: Gemma3_generateAnalysis_def Let_def)
      with k show ?thesis by (intro exI [of _ k] exI [of _ 0]) simp
    qed
  qed
qed

lemma first_call_Gemma3_generateAnalysis:
  "take (Suc (length (calls w))) (calls (snd (Gemma3_generateAnalysis e ct c w))) =
     calls w @ [ChatCompletion (gemma3_request (buildPrompt ct c))]"
proof -
  obtain k n where "1 \<le> k" and
    "snd (Gemma3_generateAnalysis e ct c w) =
          w\<lparr>calls := calls w @ replicate k (ChatCompletion (gemma3_request (buildPrompt ct c)))
                              @ replicate n (AxiosPost (ai_request e (buildPrompt ct c)))\<rparr>"
    using Gemma3_generateAnalysis_world by blast
  then show ?thesis by (cases k) simp_all
qed

lemma jobs_Gemma3_generateAnalysis: "jobs (snd (Gemma3_generateAnalysis e ct c w)) = jobs w"
  using Gemma3_generateAnalysis_world [of e ct c w] by auto

lemma db_now_Gemma3_generateAnalysis: "db_now (snd (Gemma3_generateAnalysis e ct c w)) = db_now w"
  using Gemma3_generateAnalysis_world [of e ct c w] by auto

lemma status_writes_Gemma3_generateAnalysis:
  "status_writes (snd (Gemma3_generateAnalysis e ct c w)) = status_writes w"
  using Gemma3_generateAnalysis_world [of e ct c w] by auto

lemma reply_AI_generateAnalysis: "reply (snd (AI_generateAnalysis e ct c w)) = reply w"
  by (simp add: AI_generateAnalysis_world)

lemma reply_Gemma3_generateAnalysis: "reply (snd (Gemma3_generateAnalysis e ct c w)) = reply w"
  using Gemma3_generateAnalysis_world [of e ct c w] by auto

lemma AI_generateAnalysis_fails:
  "reply w (length (calls w)) = Inl err \<Longrightarrow> fst (AI_generateAnalysis e ct c w) = Inl unavailable_error"
  by (simp add: AI_generateAnalysis_def remote_def Let_def)

lemma Gemma3_generateAnalysis_fails:
  assumes "\<forall>n. \<exists>err. reply w n = Inl err"
  shows "fst (Gemma3_generateAnalysis e ct c w) = Inl unavailable_error"
proof -
  let ?r = "gemma3_request (buildPrompt ct c)"
  obtain k where w1: "snd (chat_create ?r w) = w\<lparr>calls := calls w @ replicate k (ChatCompletion ?r)\<rparr>"
    and f: "fst (chat_create ?r w) = reply w (length (calls w) + (k - 1))"
    using chat_create_sends [of ?r w] by blast
  obtain err where "reply w (length (calls w) + (k - 1)) = Inl err" using assms by blast
  with f w1 have c: "chat_create ?r w = (Inl err, w\<lparr>calls := calls w @ replicate k (ChatCompletion ?r)\<rparr>)"
    by (cases "chat_create ?r w") simp
  obtain err2 where e2: "reply w (length (calls w) + k) = Inl err2" using assms by blast
  have "fst (AI_generateAnalysis e ct c
               (w\<lparr>calls := calls w @ replicate k (ChatCompletion ?r)\<rparr>)) = Inl unavailable_error"
    by (rule AI_generateAnalysis_fails [of _ err2]) (simp add: e2)
  then show ?thesis using c
    by (simp add: Gemma3_generateAnalysis_def Let_def bind_err_def)
qed


lemma retry_503: "err_status error = Some 503 \<Longrightarrow> sdk_should_retry error"
  by (simp add: sdk_should_retry_def)


text \<open>On a network that answers every request with status 503.\<close>

lemma unreachable_calls:
  "calls (snd (Gemma3_generateAnalysis env0 (ascii ''dua'') no_content w_unreachable)) =
     [ChatCompletion (gemma3_request (buildPrompt (ascii ''dua'') no_content)),
      ChatCompletion (gemma3_request (buildPrompt (ascii ''dua'') no_content)),
      ChatCompletion (gemma3_request (buildPrompt (ascii ''dua'') no_content)),
      AxiosPost (ai_request env0 (buildPrompt (ascii ''dua'') no_content))]"
  by (simp add: Gemma3_generateAnalysis_def chat_create_def maxRetries_def numeral_2_eq_2
        remote_def w_unreachable_def unreachable_def retry_503 error_503_def bind_err_def
        is_unavailable_def calls_AI_generateAnalysis Let_def)



text \<open>
  Claim C3, as the code has it. When \<^verbatim>\<open>client.chat.completions.create\<close> throws an error of
  the 503 class (its status is 503, or its message contains \<^verbatim>\<open>503\<close> or
  \<^verbatim>\<open>Service Unavailable\<close>), \<^verbatim>\<open>generateAnalysis\<close> of Gemma3Service calls
  \<^verbatim>\<open>generateAnalysis\<close> of AIService once, returns its outcome, and does not call \<^verbatim>\<open>create\<close>
  again. By then the client has sent the request of the first tier one to three times,
  each time with an error for answer; when the error thrown can be retried, as one of
  status 503 can, it has sent the request three times.
\<close>

theorem tier_escalation:
  assumes "fst (chat_create (gemma3_request (buildPrompt ct c)) w) = Inl error"
    and "is_unavailable error"
  shows "Gemma3_generateAnalysis e ct c w =
           AI_generateAnalysis e ct c (snd (chat_create (gemma3_request (buildPrompt ct c)) w))
     \<and> (\<exists>k. 1 \<le> k \<and> k \<le> 3
          \<and> calls (snd (chat_create (gemma3_request (buildPrompt ct c)) w)) =
              calls w @ replicate k (ChatCompletion (gemma3_request (buildPrompt ct c)))
          \<and> calls (snd (Gemma3_generateAnalysis e ct c w)) =
              calls w @ replicate k (ChatCompletion (gemma3_request (buildPrompt ct c)))
                @ [AxiosPost (ai_request e (buildPrompt ct c))]
          \<and> (\<forall>i < k. \<exists>err. reply w (length (calls w) + i) = Inl err)
          \<and> (sdk_should_retry error \<longrightarrow> k = 3)
          \<and> (err_status error = Some 503 \<longrightarrow> k = 3))"
proof -
  let ?r = "gemma3_request (buildPrompt ct c)"
  obtain k where k: "1 \<le> k" "k \<le> 3"
    and w1: "snd (chat_create ?r w) = w\<lparr>calls := calls w @ replicate k (ChatCompletion ?r)\<rparr>"
    and f: "\<forall>i < k - 1. \<exists>err. reply w (length (calls w) + i) = Inl err \<and> sdk_should_retry err"
    and l: "fst (chat_create ?r w) = reply w (length (calls w) + (k - 1))"
    and x: "k < 3 \<longrightarrow> (\<forall>err. fst (chat_create ?r w) = Inl err \<longrightarrow> \<not> sdk_should_retry err)"
    using chat_create_sends [of ?r w] by blast
  have c: "chat_create ?r w = (Inl error, snd (chat_create ?r w))"
    using assms(1) by (cases "chat_create ?r w") simp
  have g: "Gemma3_generateAnalysis e ct c w = AI_generateAnalysis e ct c (snd (chat_create ?r w))"
    unfolding Gemma3_generateAnalysis_def Let_def
    by (subst c) (simp add: bind_err_def assms(2))
  have a: "calls (snd (chat_create ?r w)) = calls w @ replicate k (ChatCompletion ?r)"
    by (simp add: w1)
  have b: "calls (snd (Gemma3_generateAnalysis e ct c w)) =
             calls w @ replicate k (ChatCompletion ?r) @ [AxiosPost (ai_request e (buildPrompt ct c))]"
    unfolding g by (simp add: calls_AI_generateAnalysis a)
  have d: "\<forall>i < k. \<exists>err. reply w (length (calls w) + i) = Inl err"
  proof (intro allI impI)
    fix i assume i: "i < k"
    show "\<exists>err. reply w (length (calls w) + i) = Inl err"
    proof (cases "i < k - 1")
      case True
      with f show ?thesis by blast
    next
      case False
      with i have "i = k - 1" by simp
      moreover from l assms(1) have "reply w (length (calls w) + (k - 1)) = Inl error" by simp
      ultimately show ?thesis by blast
    qed
  qed
  have r: "sdk_should_retry error \<longrightarrow> k = 3"
    using x assms(1) k by (cases "k < 3") auto
  have s: "err_status error = Some 503 \<longrightarrow> k = 3"
    using r retry_503 by blast
  from k a b d r s have "\<exists>k. 1 \<le> k \<and> k \<le> 3
          \<and> calls (snd (chat_create ?r w)) = calls w @ replicate k (ChatCompletion ?r)
          \<and> calls (snd (Gemma3_generateAnalysis e ct c w)) =
              calls w @ replicate k (ChatCompletion ?r)
                @ [AxiosPost (ai_request e (buildPrompt ct c))]
          \<and> (\<forall>i < k. \<exists>err. reply w (length (calls w) + i) = Inl err)
          \<and> (sdk_should_retry error \<longrightarrow> k = 3)
          \<and> (err_status error = Some 503 \<longrightarrow> k = 3)"
    by (intro exI [of _ k]) simp
  with g show ?thesis by simp
qed

lemma unreachable_create:
  "fst (chat_create (gemma3_request (buildPrompt (ascii ''dua'') no_content)) w_unreachable) =
     Inl error_503"
  by (simp add: chat_create_def maxRetries_def numeral_2_eq_2 remote_def w_unreachable_def
        unreachable_def retry_503 error_503_def)

theorem tier_escalation_witness:
  "fst (chat_create (gemma3_request (buildPrompt (ascii ''dua'') no_content)) w_unreachable) =
     Inl error_503
   \<and> is_unavailable error_503 \<and> err_status error_503 = Some 503
   \<and> calls (snd (Gemma3_generateAnalysis env0 (ascii ''dua'') no_content w_unreachable)) =
       replicate 3 (ChatCompletion (gemma3_request (buildPrompt (ascii ''dua'') no_content)))
         @ [AxiosPost (ai_request env0 (buildPrompt (ascii ''dua'') no_content))]"
proof -
  have s: "err_status error_503 = Some 503" by (simp add: error_503_def)
  from tier_escalation [OF unreachable_create is_unavailable_503, of env0]
  obtain k where
    "calls (snd (Gemma3_generateAnalysis env0 (ascii ''dua'') no_content w_unreachable)) =
       calls w_unreachable
         @ replicate k (ChatCompletion (gemma3_request (buildPrompt (ascii ''dua'') no_content)))
         @ [AxiosPost (ai_request env0 (buildPrompt (ascii ''dua'') no_content))]"
    and "err_status error_503 = Some 503 \<longrightarrow> k = 3" by blast
  moreover have "calls w_unreachable = []" by (simp add: w_unreachable_def)
  ultimately show ?thesis using s unreachable_create is_unavailable_503 by simp
qed

text \<open>
  The claim as stated fails: when the first tier answers 503, its request is sent three
  times before the request of the second tier, not once.
\<close>

theorem tier_retried_counterexample:
  "reply w_unreachable 0 = Inl error_503 \<and> is_unavailable error_503
   \<and> calls (snd (Gemma3_generateAnalysis env0 (ascii ''dua'') no_content w_unreachable)) =
     [ChatCompletion (gemma3_request (buildPrompt (ascii ''dua'') no_content)),
      ChatCompletion (gemma3_request (buildPrompt (ascii ''dua'') no_content)),
      ChatCompletion (gemma3_request (buildPrompt (ascii ''dua'') no_content)),
      AxiosPost (ai_request env0 (buildPrompt (ascii ''dua'') no_content))]
   \<and> calls (snd (Gemma3_generateAnalysis env0 (ascii ''dua'') no_content w_unreachable)) \<noteq>
     [ChatCompletion (gemma3_request (buildPrompt (ascii ''dua'') no_content)),
      AxiosPost (ai_request env0 (buildPrompt (ascii ''dua'') no_content))]"
  using unreachable_calls is_unavailable_503 by (simp add: w_unreachable_def unreachable_def)

subsection \<open>The response parsers\<close>



subsection \<open>The single-flight queue\<close>

text \<open>
  Claim C7, at a run the service can take. Requests 0 and 1 are enqueued at time 0;
  request 0 starts at once and returns at 5000, and the \<^verbatim>\<open>finally\<close> block sets the timer
  for 6000. At 5010 a third request is enqueued: \<^verbatim>\<open>generateAnalysisWithQueue\<close> calls
  \<^verbatim>\<open>processQueue\<close> itself, the slot is free, and request 1 starts at 5010, 10 ms after the
  return of request 0 and 990 ms before the timer is due.
\<close>

theorem cooldown_bypassed:
  "map_option q_log (q_run cooldown_trace q_init) = Some ([(0, 0), (1, 5010)], [(0, 5000)], [6000])"
  by (simp add: cooldown_trace_def q_init_def q_log_def generateAnalysisWithQueue_def
        processQueue_def processQueue_resume_def Let_def)

text \<open>
  What does hold of every run without \<^verbatim>\<open>clearQueue\<close>: at most one call is in flight, and
  the calls start in the order of submission.
\<close>

lemma q_inv_processQueue: "q_inv s \<Longrightarrow> q_inv (processQueue s)"
  by (auto simp: q_inv_def processQueue_def split: list.splits)

lemma q_inv_step: "q_inv s \<Longrightarrow> e \<noteq> Clear \<Longrightarrow> q_step e s = Some s' \<Longrightarrow> q_inv s'"
proof (cases e)
  case (Enqueue ct c)
  assume "q_inv s" "q_step e s = Some s'"
  then show ?thesis using Enqueue
    by (auto simp: generateAnalysisWithQueue_def Let_def q_inv_def processQueue_def split: list.splits)
next
  case (Return p out)
  assume a: "q_inv s" "q_step e s = Some s'"
  then obtain r where r: "find (\<lambda>r. req_promise r = p) (inflight s) = Some r"
    using Return by (auto split: option.splits)
  then have "inflight s \<noteq> []" by auto
  with a(1) have one: "length (inflight s) = 1" by (auto simp: q_inv_def)
  then obtain x where x: "inflight s = [x]" by (cases "inflight s") auto
  with r have "req_promise x = p" by (auto split: if_splits)
  with a x r Return show ?thesis
    by (auto simp: q_inv_def processQueue_resume_def Let_def split: if_splits)
next
  case Fire
  assume "q_inv s" "q_step e s = Some s'"
  then show ?thesis using Fire
    by (auto simp: q_inv_def processQueue_def split: list.splits if_splits)
next
  case (Tick d)
  assume "q_inv s" "q_step e s = Some s'"
  then show ?thesis using Tick by (auto simp: q_inv_def)
next
  case Clear
  assume "e \<noteq> Clear"
  with Clear show ?thesis by simp
qed

lemma q_inv_run: "q_inv s \<Longrightarrow> Clear \<notin> set es \<Longrightarrow> q_run es s = Some s' \<Longrightarrow> q_inv s'"
proof (induction es arbitrary: s)
  case Nil
  then show ?case by simp
next
  case (Cons e es)
  from Cons.prems obtain s1 where s1: "q_step e s = Some s1" and run: "q_run es s1 = Some s'"
    by (auto split: option.splits)
  from Cons.prems have "e \<noteq> Clear" and rest: "Clear \<notin> set es" by auto
  with Cons.prems(1) s1 have "q_inv s1" by (blast intro: q_inv_step)
  from Cons.IH [OF this rest run] show ?case .
qed

lemma single_flight:
  assumes "Clear \<notin> set es" and "q_run es q_init = Some s"
  shows "length (inflight s) \<le> 1"
proof -
  have "q_inv q_init" by (simp add: q_inv_def q_init_def)
  from q_inv_run [OF this assms] show ?thesis by (auto simp: q_inv_def)
qed

lemma order_processQueue:
  "map fst (started (processQueue s)) @ map req_promise (requestQueue (processQueue s)) =
     map fst (started s) @ map req_promise (requestQueue s)"
  by (simp add: processQueue_def split: list.splits)

lemma nextPromise_processQueue: "nextPromise (processQueue s) = nextPromise s"
  by (simp add: processQueue_def split: list.splits)

lemma fifo_inv_step: "fifo_inv s \<Longrightarrow> e \<noteq> Clear \<Longrightarrow> q_step e s = Some s' \<Longrightarrow> fifo_inv s'"
proof (cases e)
  case (Enqueue ct c)
  assume "fifo_inv s" "q_step e s = Some s'"
  then show ?thesis using Enqueue
    by (auto simp: fifo_inv_def generateAnalysisWithQueue_def Let_def order_processQueue
          nextPromise_processQueue)
next
  case (Return p out)
  assume "fifo_inv s" "q_step e s = Some s'"
  then show ?thesis using Return
    by (auto simp: fifo_inv_def processQueue_resume_def Let_def split: option.splits)
next
  case Fire
  assume "fifo_inv s" "q_step e s = Some s'"
  then show ?thesis using Fire
    by (auto simp: fifo_inv_def order_processQueue nextPromise_processQueue
          split: list.splits if_splits)
next
  case (Tick d)
  assume "fifo_inv s" "q_step e s = Some s'"
  then show ?thesis using Tick by (auto simp: fifo_inv_def)
next
  case Clear
  assume "e \<noteq> Clear"
  with Clear show ?thesis by simp
qed

lemma fifo_inv_run: "fifo_inv s \<Longrightarrow> Clear \<notin> set es \<Longrightarrow> q_run es s = Some s' \<Longrightarrow> fifo_inv s'"
proof (induction es arbitrary: s)
  case Nil
  then show ?case by simp
next
  case (Cons e es)
  from Cons.prems obtain s1 where s1: "q_step e s = Some s1" and run: "q_run es s1 = Some s'"
    by (auto split: option.splits)
  from Cons.prems have "e \<noteq> Clear" and rest: "Clear \<notin> set es" by auto
  with Cons.prems(1) s1 have "fifo_inv s1" by (blast intro: fifo_inv_step)
  from Cons.IH [OF this rest run] show ?case .
qed

lemma prefix_of_upt: "xs @ ys = [0 ..< n] \<Longrightarrow> xs = [0 ..< length xs]"
proof -
  assume a: "xs @ ys = [0 ..< n]"
  then have "length xs \<le> n" by (metis length_append length_upt le_add1 diff_zero)
  have "xs = take (length xs) (xs @ ys)" by simp
  also have "\<dots> = take (length xs) [0 ..< n]" using a by simp
  also have "\<dots> = [0 ..< length xs]" using \<open>length xs \<le> n\<close> by simp
  finally show ?thesis .
qed

lemma fifo_order:
  assumes "Clear \<notin> set es" and "q_run es q_init = Some s"
  shows "map fst (started s) = [0 ..< length (started s)]"
proof -
  have "fifo_inv q_init" by (simp add: fifo_inv_def q_init_def)
  from fifo_inv_run [OF this assms] have "fifo_inv s" .
  then show ?thesis using prefix_of_upt [of "map fst (started s)"] by (auto simp: fifo_inv_def)
qed

subsection \<open>Job status\<close>

lemma jobs_updateContentWithAI: "updateContentWithAI ct cid a w = Inr w' \<Longrightarrow> jobs w' = jobs w"
  by (auto simp: updateContentWithAI_def split: if_splits)

lemma process_try_jobs:
  "process_try e t ct cid w = (Inl err, w') \<Longrightarrow> jobs w' = jobs (mark_processing ct cid w)"
  apply (simp add: process_try_def Let_def split: sum.splits option.splits prod.splits)
  apply (auto dest: jobs_updateContentWithAI)
  apply (metis jobs_Gemma3_generateAnalysis snd_conv)+
  done

lemma status_writes_updateContentWithAI:
  "updateContentWithAI ct cid a w = Inr w' \<Longrightarrow> status_writes w' = status_writes w"
  by (auto simp: updateContentWithAI_def split: if_splits)

lemma status_mark_processing_rows:
  "map status (jobs (mark_processing ct cid w)) = map (set_status ct cid processing) (jobs w)"
  by (simp add: mark_processing_def set_status_def)

lemma status_mark_failed_rows:
  "map status (jobs (mark_failed ct cid m w)) = map (set_status ct cid failed) (jobs w)"
  by (simp add: mark_failed_def set_status_def)

lemma status_mark_completed_rows:
  "map status (jobs (mark_completed ct cid a w)) = map (set_status ct cid completed) (jobs w)"
  by (simp add: mark_completed_def set_status_def)

lemma set_status_twice:
  "map (set_status ct cid st) (jobs (mark_processing ct cid w)) = map (set_status ct cid st) (jobs w)"
  by (simp add: mark_processing_def set_status_def same_key_def)

lemma key_mark_processing:
  "map job_key (jobs (mark_processing ct cid w)) = map job_key (jobs w)"
  by (simp add: mark_processing_def job_key_def)

lemma key_mark_failed: "map job_key (jobs (mark_failed ct cid m w)) = map job_key (jobs w)"
  by (simp add: mark_failed_def job_key_def)

lemma key_mark_completed: "map job_key (jobs (mark_completed ct cid a w)) = map job_key (jobs w)"
  by (simp add: mark_completed_def job_key_def)

lemma other_rows_map:
  assumes "\<And>j. \<not> same_key ct cid j \<Longrightarrow> f j = j" and "\<And>j. same_key ct cid (f j) = same_key ct cid j"
  shows "filter (\<lambda>j. \<not> same_key ct cid j) (map f xs) = filter (\<lambda>j. \<not> same_key ct cid j) xs"
proof (induction xs)
  case Nil
  show ?case by simp
next
  case (Cons x xs)
  show ?case
  proof (cases "same_key ct cid x")
    case True
    with Cons show ?thesis by (simp add: assms(2))
  next
    case False
    then have "f x = x" by (rule assms(1))
    with False Cons show ?thesis by simp
  qed
qed

lemma other_mark_processing:
  "filter (\<lambda>j. \<not> same_key ct cid j) (jobs (mark_processing ct cid w)) =
     filter (\<lambda>j. \<not> same_key ct cid j) (jobs w)"
proof -
  have "filter (\<lambda>j. \<not> same_key ct cid j)
          (map (\<lambda>j. if same_key ct cid j then j\<lparr>status := processing\<rparr> else j) (jobs w)) =
        filter (\<lambda>j. \<not> same_key ct cid j) (jobs w)"
    by (rule other_rows_map) (simp, simp add: same_key_def)
  then show ?thesis by (simp add: mark_processing_def)
qed

lemma other_mark_failed:
  "filter (\<lambda>j. \<not> same_key ct cid j) (jobs (mark_failed ct cid m w)) =
     filter (\<lambda>j. \<not> same_key ct cid j) (jobs w)"
proof -
  have "filter (\<lambda>j. \<not> same_key ct cid j)
          (map (\<lambda>j. if same_key ct cid j
                    then j\<lparr>status := failed, error_message := Some m,
                           processed_at := Some (db_now w)\<rparr>
                    else j) (jobs w)) =
        filter (\<lambda>j. \<not> same_key ct cid j) (jobs w)"
    by (rule other_rows_map) (simp, simp add: same_key_def)
  then show ?thesis by (simp add: mark_failed_def)
qed

lemma other_mark_completed:
  "filter (\<lambda>j. \<not> same_key ct cid j) (jobs (mark_completed ct cid a w)) =
     filter (\<lambda>j. \<not> same_key ct cid j) (jobs w)"
proof -
  have "filter (\<lambda>j. \<not> same_key ct cid j)
          (map (\<lambda>j. if same_key ct cid j
                    then j\<lparr>status := completed, result := Some a,
                           processed_at := Some (db_now w)\<rparr>
                    else j) (jobs w)) =
        filter (\<lambda>j. \<not> same_key ct cid j) (jobs w)"
    by (rule other_rows_map) (simp, simp add: same_key_def)
  then show ?thesis by (simp add: mark_completed_def)
qed

lemma process_try_failed:
  assumes "process_try e t ct cid w = (Inl err, w')"
  shows "jobs w' = jobs (mark_processing ct cid w)
     \<and> status_writes w' = status_writes w @ [(ct, cid, processing)]"
proof -
  have m: "status_writes (mark_processing ct cid w) = status_writes w @ [(ct, cid, processing)]"
    by (simp add: mark_processing_def)
  have j: "jobs w' = jobs (mark_processing ct cid w)" using assms by (rule process_try_jobs)
  have "status_writes w' = status_writes (mark_processing ct cid w)"
  proof (cases "getContent t ct cid")
    case (Inl x)
    with assms show ?thesis by (simp add: process_try_def Let_def)
  next
    case (Inr oc)
    show ?thesis
    proof (cases oc)
      case None
      with Inr assms show ?thesis by (simp add: process_try_def Let_def)
    next
      case (Some c)
      obtain res w2 where g: "Gemma3_generateAnalysis e ct c (mark_processing ct cid w) = (res, w2)"
        by (cases "Gemma3_generateAnalysis e ct c (mark_processing ct cid w)")
      then have "snd (Gemma3_generateAnalysis e ct c (mark_processing ct cid w)) = w2" by simp
      then have w2: "status_writes w2 = status_writes (mark_processing ct cid w)"
        using status_writes_Gemma3_generateAnalysis [of e ct c "mark_processing ct cid w"] by simp
      show ?thesis
      proof (cases res)
        case (Inl x)
        with Inr Some g assms have "w' = w2" by (simp add: process_try_def Let_def)
        with w2 show ?thesis by simp
      next
        case (Inr a)
        with \<open>getContent t ct cid = Inr oc\<close> Some g assms have "w' = w2"
          by (simp add: process_try_def Let_def split: sum.splits)
        with w2 show ?thesis by simp
      qed
    qed
  qed
  with m j show ?thesis by simp
qed

lemma process_try_completed:
  assumes "process_try e t ct cid w = (Inr a, w')"
  shows "\<exists>w3. jobs w3 = jobs (mark_processing ct cid w)
           \<and> status_writes w3 = status_writes w @ [(ct, cid, processing)]
           \<and> w' = mark_completed ct cid a w3"
proof -
  have m: "status_writes (mark_processing ct cid w) = status_writes w @ [(ct, cid, processing)]"
    by (simp add: mark_processing_def)
  from assms obtain c where c: "getContent t ct cid = Inr (Some c)"
    by (auto simp: process_try_def Let_def split: sum.splits option.splits)
  obtain res w2 where g: "Gemma3_generateAnalysis e ct c (mark_processing ct cid w) = (res, w2)"
    by (cases "Gemma3_generateAnalysis e ct c (mark_processing ct cid w)")
  then have s: "snd (Gemma3_generateAnalysis e ct c (mark_processing ct cid w)) = w2" by simp
  have w2: "status_writes w2 = status_writes (mark_processing ct cid w)"
    using status_writes_Gemma3_generateAnalysis [of e ct c "mark_processing ct cid w"] s by simp
  have j2: "jobs w2 = jobs (mark_processing ct cid w)"
    using jobs_Gemma3_generateAnalysis [of e ct c "mark_processing ct cid w"] s by simp
  from assms c g obtain a' where res: "res = Inr a'"
    by (cases res) (simp_all add: process_try_def Let_def)
  from assms c g res obtain w3 where u: "updateContentWithAI ct cid a' w2 = Inr w3"
    by (cases "updateContentWithAI ct cid a' w2") (simp_all add: process_try_def Let_def)
  from assms c g res u have e: "a = a'" and w': "w' = mark_completed ct cid a' w3"
    by (auto simp: process_try_def Let_def)
  have "jobs w3 = jobs w2" using u by (rule jobs_updateContentWithAI)
  moreover have "status_writes w3 = status_writes w2" using u by (rule status_writes_updateContentWithAI)
  ultimately show ?thesis using e w' w2 j2 m by (intro exI [of _ w3]) simp
qed

lemma processContent_writes:
  "\<exists>w1 st. jobs w1 = jobs (mark_processing ct cid w)
      \<and> status_writes w1 = status_writes w @ [(ct, cid, processing)]
      \<and> ((\<exists>m. st = failed \<and> snd (processContent e t ct cid w) = mark_failed ct cid m w1)
         \<or> (\<exists>a. st = completed \<and> snd (processContent e t ct cid w) = mark_completed ct cid a w1))"
proof (cases "process_try e t ct cid w")
  case (Pair res w')
  show ?thesis
  proof (cases res)
    case (Inl err)
    with Pair have "jobs w' = jobs (mark_processing ct cid w)
       \<and> status_writes w' = status_writes w @ [(ct, cid, processing)]"
      using process_try_failed by blast
    moreover have "snd (processContent e t ct cid w) = mark_failed ct cid (err_message err) w'"
      using Pair Inl by (simp add: processContent_def)
    ultimately show ?thesis by (intro exI [of _ w'] exI [of _ failed]) blast
  next
    case (Inr a)
    with Pair obtain w3 where "jobs w3 = jobs (mark_processing ct cid w)"
      "status_writes w3 = status_writes w @ [(ct, cid, processing)]"
      "w' = mark_completed ct cid a w3"
      using process_try_completed by blast
    moreover have "snd (processContent e t ct cid w) = w'"
      using Pair Inr by (simp add: processContent_def)
    ultimately show ?thesis by (intro exI [of _ w3] exI [of _ completed]) blast
  qed
qed

lemma rows_of_jobs:
  assumes "jobs w1 = jobs (mark_processing ct cid w)"
  shows "map (set_status ct cid st) (jobs w1) = map (set_status ct cid st) (jobs w)"
    and "map job_key (jobs w1) = map job_key (jobs w)"
    and "filter (\<lambda>j. \<not> same_key ct cid j) (jobs w1) = filter (\<lambda>j. \<not> same_key ct cid j) (jobs w)"
  unfolding assms
  by (rule set_status_twice, rule key_mark_processing, rule other_mark_processing)

lemma failed_rows:
  assumes "jobs w1 = jobs (mark_processing ct cid w)"
    and "status_writes w1 = status_writes w @ [(ct, cid, processing)]"
  shows "status_writes (mark_failed ct cid m w1) =
           status_writes w @ [(ct, cid, processing), (ct, cid, failed)]
    \<and> map status (jobs (mark_failed ct cid m w1)) = map (set_status ct cid failed) (jobs w)
    \<and> map job_key (jobs (mark_failed ct cid m w1)) = map job_key (jobs w)
    \<and> filter (\<lambda>j. \<not> same_key ct cid j) (jobs (mark_failed ct cid m w1)) =
       filter (\<lambda>j. \<not> same_key ct cid j) (jobs w)"
proof -
  have a: "status_writes (mark_failed ct cid m w1) =
           status_writes w @ [(ct, cid, processing), (ct, cid, failed)]"
    by (simp add: mark_failed_def assms(2))
  have b: "map status (jobs (mark_failed ct cid m w1)) = map (set_status ct cid failed) (jobs w)"
    unfolding status_mark_failed_rows by (rule rows_of_jobs(1) [OF assms(1)])
  have c: "map job_key (jobs (mark_failed ct cid m w1)) = map job_key (jobs w)"
    unfolding key_mark_failed by (rule rows_of_jobs(2) [OF assms(1)])
  have d: "filter (\<lambda>j. \<not> same_key ct cid j) (jobs (mark_failed ct cid m w1)) =
       filter (\<lambda>j. \<not> same_key ct cid j) (jobs w)"
    unfolding other_mark_failed by (rule rows_of_jobs(3) [OF assms(1)])
  from a b c d show ?thesis by (intro conjI)
qed

lemma completed_rows:
  assumes "jobs w1 = jobs (mark_processing ct cid w)"
    and "status_writes w1 = status_writes w @ [(ct, cid, processing)]"
  shows "status_writes (mark_completed ct cid a w1) =
           status_writes w @ [(ct, cid, processing), (ct, cid, completed)]
    \<and> map status (jobs (mark_completed ct cid a w1)) = map (set_status ct cid completed) (jobs w)
    \<and> map job_key (jobs (mark_completed ct cid a w1)) = map job_key (jobs w)
    \<and> filter (\<lambda>j. \<not> same_key ct cid j) (jobs (mark_completed ct cid a w1)) =
       filter (\<lambda>j. \<not> same_key ct cid j) (jobs w)"
proof -
  have a: "status_writes (mark_completed ct cid a w1) =
           status_writes w @ [(ct, cid, processing), (ct, cid, completed)]"
    by (simp add: mark_completed_def assms(2))
  have b: "map status (jobs (mark_completed ct cid a w1)) = map (set_status ct cid completed) (jobs w)"
    unfolding status_mark_completed_rows by (rule rows_of_jobs(1) [OF assms(1)])
  have c: "map job_key (jobs (mark_completed ct cid a w1)) = map job_key (jobs w)"
    unfolding key_mark_completed by (rule rows_of_jobs(2) [OF assms(1)])
  have d: "filter (\<lambda>j. \<not> same_key ct cid j) (jobs (mark_completed ct cid a w1)) =
       filter (\<lambda>j. \<not> same_key ct cid j) (jobs w)"
    unfolding other_mark_completed by (rule rows_of_jobs(3) [OF assms(1)])
  from a b c d show ?thesis by (intro conjI)
qed

lemma processContent_rows:
  "\<exists>w1 st. jobs w1 = jobs (mark_processing ct cid w)
      \<and> status_writes w1 = status_writes w @ [(ct, cid, processing)]
      \<and> ((\<exists>m. st = failed \<and> snd (processContent e t ct cid w) = mark_failed ct cid m w1)
         \<or> (\<exists>a. st = completed \<and> snd (processContent e t ct cid w) = mark_completed ct cid a w1))
      \<and> status_writes (snd (processContent e t ct cid w)) =
          status_writes w @ [(ct, cid, processing), (ct, cid, st)]
      \<and> map status (jobs (snd (processContent e t ct cid w))) =
          map (set_status ct cid st) (jobs w)
      \<and> map job_key (jobs (snd (processContent e t ct cid w))) = map job_key (jobs w)
      \<and> filter (\<lambda>j. \<not> same_key ct cid j) (jobs (snd (processContent e t ct cid w))) =
          filter (\<lambda>j. \<not> same_key ct cid j) (jobs w)"
proof -
  from processContent_writes [of ct cid w e t]
  obtain w1 st where j1: "jobs w1 = jobs (mark_processing ct cid w)"
    and s1: "status_writes w1 = status_writes w @ [(ct, cid, processing)]"
    and d: "(\<exists>m. st = failed \<and> snd (processContent e t ct cid w) = mark_failed ct cid m w1)
         \<or> (\<exists>a. st = completed \<and> snd (processContent e t ct cid w) = mark_completed ct cid a w1)"
    by (elim exE conjE)
  from d show ?thesis
  proof (elim disjE exE conjE)
    fix m assume st: "st = failed"
      and p: "snd (processContent e t ct cid w) = mark_failed ct cid m w1"
    show ?thesis
      using j1 s1 d failed_rows [OF j1 s1, of m] unfolding p st
      by (intro exI [of _ w1] exI [of _ failed] conjI) (elim conjE, assumption)+
  next
    fix a assume st: "st = completed"
      and p: "snd (processContent e t ct cid w) = mark_completed ct cid a w1"
    show ?thesis
      using j1 s1 d completed_rows [OF j1 s1, of a] unfolding p st
      by (intro exI [of _ w1] exI [of _ completed] conjI) (elim conjE, assumption)+
  qed
qed



text \<open>
  Claim C6, as the code has it. The status writes select rows by content type and content
  id alone, whatever their status. \<^verbatim>\<open>processContent\<close> makes two of them: the first sets
  every row of its key to processing, the last sets every row of its key to one and the
  same of completed and failed, also the rows that were completed or failed before. No
  write changes the key of a row or a row of another key. A resubmission through
  \<^verbatim>\<open>POST /analyze\<close> is refused or appends one pending row for its key, and changes no row
  there is.
\<close>

theorem status_writes_by_key:
  "(\<exists>w1 st. jobs w1 = jobs (mark_processing ct cid w)
      \<and> status_writes w1 = status_writes w @ [(ct, cid, processing)]
      \<and> ((\<exists>m. st = failed \<and> snd (processContent e t ct cid w) = mark_failed ct cid m w1)
         \<or> (\<exists>a. st = completed \<and> snd (processContent e t ct cid w) = mark_completed ct cid a w1))
      \<and> status_writes (snd (processContent e t ct cid w)) =
          status_writes w @ [(ct, cid, processing), (ct, cid, st)]
      \<and> map status (jobs (snd (processContent e t ct cid w))) =
          map (set_status ct cid st) (jobs w)
      \<and> map job_key (jobs (snd (processContent e t ct cid w))) = map job_key (jobs w)
      \<and> filter (\<lambda>j. \<not> same_key ct cid j) (jobs (snd (processContent e t ct cid w))) =
          filter (\<lambda>j. \<not> same_key ct cid j) (jobs w))
   \<and> map status (jobs (mark_processing ct cid w)) = map (set_status ct cid processing) (jobs w)
   \<and> map job_key (jobs (mark_processing ct cid w)) = map job_key (jobs w)
   \<and> filter (\<lambda>j. \<not> same_key ct cid j) (jobs (mark_processing ct cid w)) =
       filter (\<lambda>j. \<not> same_key ct cid j) (jobs w)
   \<and> (\<exists>j. jobs (insert_pending ct' cid' w) = jobs w @ [j] \<and> status j = pending
          \<and> job_key j = (ct', cid'))
   \<and> (snd (trigger_analysis ct' cid' hasAccess w) = w
        \<or> snd (trigger_analysis ct' cid' hasAccess w) = insert_pending ct' cid' w)"
proof -
  have i: "\<exists>j. jobs (insert_pending ct' cid' w) = jobs w @ [j] \<and> status j = pending
          \<and> job_key j = (ct', cid')"
    by (simp add: insert_pending_def job_key_def)
  have r: "snd (trigger_analysis ct' cid' hasAccess w) = w
        \<or> snd (trigger_analysis ct' cid' hasAccess w) = insert_pending ct' cid' w"
    by (simp add: trigger_analysis_def)
  show ?thesis
    using processContent_rows [of ct cid w e t] status_mark_processing_rows [of ct cid w]
      key_mark_processing [of ct cid w] other_mark_processing [of ct cid w] i r
    by (intro conjI)
qed

lemma processContent_not_found:
  "processContent env0 no_tables (ascii ''dua'') 42 w =
     (Inl (mk_Error (ascii ''Content not found'')),
      mark_failed (ascii ''dua'') 42 (ascii ''Content not found'')
        (mark_processing (ascii ''dua'') 42 w))"
  by (simp add: processContent_def process_try_def getContent_def no_tables_def mk_Error_def)

lemma status_mark_processing:
  "map status (jobs (mark_processing (ascii ''dua'') 42 (w_job st))) = [processing]"
  by (simp add: mark_processing_def w_job_def job1_def same_key_def)

lemma status_mark_failed:
  "map status (jobs (mark_failed (ascii ''dua'') 42 m (mark_processing (ascii ''dua'') 42 w))) =
     map status (jobs (mark_failed (ascii ''dua'') 42 m w))"
  by (simp add: mark_failed_def mark_processing_def same_key_def)

lemma status_mark_failed_job:
  "map status (jobs (mark_failed (ascii ''dua'') 42 m (w_job st))) = [failed]"
  by (simp add: mark_failed_def w_job_def job1_def same_key_def)

lemma jobs3_rows:
  "map status (jobs w_jobs3) = [completed, pending, pending]
   \<and> map job_key (jobs w_jobs3) =
       [(ascii ''dua'', 42), (ascii ''blog'', 5), (ascii ''dua'', 42)]
   \<and> map (same_key (ascii ''dua'') 42) (jobs w_jobs3) = [True, False, True]
   \<and> status_writes w_jobs3 = []"
  by (simp add: w_jobs3_def job1_def job_key_def same_key_def ascii_def)

lemma set_status_rows:
  "map (set_status ct cid st) js =
     map (\<lambda>(k, s). if k then st else s) (zip (map (same_key ct cid) js) (map status js))"
  by (induction js) (simp_all add: set_status_def)

theorem status_writes_by_key_witness:
  "map status (jobs w_jobs3) = [completed, pending, pending]
   \<and> map job_key (jobs w_jobs3) = [(ascii ''dua'', 42), (ascii ''blog'', 5), (ascii ''dua'', 42)]
   \<and> map status (jobs (mark_processing (ascii ''dua'') 42 w_jobs3)) =
       [processing, pending, processing]
   \<and> status_writes (snd (processContent env0 no_tables (ascii ''dua'') 42 w_jobs3)) =
       [(ascii ''dua'', 42, processing), (ascii ''dua'', 42, failed)]
   \<and> map status (jobs (snd (processContent env0 no_tables (ascii ''dua'') 42 w_jobs3))) =
       [failed, pending, failed]
   \<and> map job_key (jobs (snd (processContent env0 no_tables (ascii ''dua'') 42 w_jobs3))) =
       [(ascii ''dua'', 42), (ascii ''blog'', 5), (ascii ''dua'', 42)]
   \<and> map status (jobs (insert_pending (ascii ''dua'') 42 w_jobs3)) =
       [completed, pending, pending, pending]
   \<and> map job_key (jobs (insert_pending (ascii ''dua'') 42 w_jobs3)) =
       [(ascii ''dua'', 42), (ascii ''blog'', 5), (ascii ''dua'', 42), (ascii ''dua'', 42)]"
proof -
  note t = status_writes_by_key [of "ascii ''dua''" 42 w_jobs3 env0 no_tables "ascii ''dua''" 42
      True]
  from t obtain st where
    l: "status_writes (snd (processContent env0 no_tables (ascii ''dua'') 42 w_jobs3)) =
          status_writes w_jobs3 @ [(ascii ''dua'', 42, processing), (ascii ''dua'', 42, st)]"
    and m: "map status (jobs (snd (processContent env0 no_tables (ascii ''dua'') 42 w_jobs3))) =
          map (set_status (ascii ''dua'') 42 st) (jobs w_jobs3)"
    and k: "map job_key (jobs (snd (processContent env0 no_tables (ascii ''dua'') 42 w_jobs3))) =
          map job_key (jobs w_jobs3)"
    by (elim conjE exE)
  have "status_writes (snd (processContent env0 no_tables (ascii ''dua'') 42 w_jobs3)) =
          [(ascii ''dua'', 42, processing), (ascii ''dua'', 42, failed)]"
    by (simp add: processContent_not_found mark_failed_def mark_processing_def jobs3_rows)
  with l have st: "st = failed" by (simp add: jobs3_rows)
  from t have p: "map status (jobs (mark_processing (ascii ''dua'') 42 w_jobs3)) =
      map (set_status (ascii ''dua'') 42 processing) (jobs w_jobs3)"
    by (elim conjE)
  from t obtain j where j: "jobs (insert_pending (ascii ''dua'') 42 w_jobs3) = jobs w_jobs3 @ [j]"
    "status j = pending" "job_key j = (ascii ''dua'', 42)"
    by (elim conjE exE)
  have a: "map status (jobs (insert_pending (ascii ''dua'') 42 w_jobs3)) =
       [completed, pending, pending, pending]"
    unfolding j(1) by (simp add: j(2) jobs3_rows)
  have b: "map job_key (jobs (insert_pending (ascii ''dua'') 42 w_jobs3)) =
       [(ascii ''dua'', 42), (ascii ''blog'', 5), (ascii ''dua'', 42), (ascii ''dua'', 42)]"
    unfolding j(1) by (simp add: j(3) jobs3_rows)
  have c: "map status (jobs (mark_processing (ascii ''dua'') 42 w_jobs3)) =
       [processing, pending, processing]"
    unfolding p set_status_rows by (simp add: jobs3_rows)
  have d: "map status (jobs (snd (processContent env0 no_tables (ascii ''dua'') 42 w_jobs3))) =
       [failed, pending, failed]"
    unfolding m st set_status_rows by (simp add: jobs3_rows)
  have e: "status_writes (snd (processContent env0 no_tables (ascii ''dua'') 42 w_jobs3)) =
       [(ascii ''dua'', 42, processing), (ascii ''dua'', 42, failed)]"
    unfolding l st by (simp add: jobs3_rows)
  have f: "map job_key (jobs (snd (processContent env0 no_tables (ascii ''dua'') 42 w_jobs3))) =
       [(ascii ''dua'', 42), (ascii ''blog'', 5), (ascii ''dua'', 42)]"
    unfolding k by (simp add: jobs3_rows)
  from jobs3_rows a b c d e f show ?thesis by (intro conjI) (elim conjE, assumption)+
qed

text \<open>
  The claim as stated fails: a completed row of dua 42 is set back to processing by the
  first write of \<^verbatim>\<open>processContent\<close>, and is failed when the call returns because the dua
  has been deleted.
\<close>

theorem terminal_status_counterexample:
  "map status (jobs (w_job completed)) = [completed]
   \<and> map status (jobs (mark_processing (ascii ''dua'') 42 (w_job completed))) = [processing]
   \<and> map status (jobs (snd (processContent env0 no_tables (ascii ''dua'') 42 (w_job completed)))) = [failed]"
proof -
  have "map status (jobs (w_job completed)) = [completed]" by (simp add: w_job_def job1_def)
  then show ?thesis
    by (simp add: processContent_not_found status_mark_failed status_mark_failed_job
          status_mark_processing)
qed

lemma mark_failed_rows:
  "\<forall>j \<in> set (jobs (mark_failed ct cid m w)).
     same_key ct cid j \<longrightarrow> status j = failed \<and> error_message j = Some m"
proof
  fix j assume "j \<in> set (jobs (mark_failed ct cid m w))"
  then obtain x where x: "x \<in> set (jobs w)"
    and j: "j = (if same_key ct cid x
                 then x\<lparr>status := failed, error_message := Some m,
                        processed_at := Some (db_now w)\<rparr> else x)"
    by (auto simp: mark_failed_def)
  show "same_key ct cid j \<longrightarrow> status j = failed \<and> error_message j = Some m"
  proof (cases "same_key ct cid x")
    case True
    with j show ?thesis by simp
  next
    case False
    with j show ?thesis by simp
  qed
qed

text \<open>
  Claim C5, as the code has it. In inline mode, when \<^verbatim>\<open>processContent\<close> throws, the
  \<^verbatim>\<open>catch\<close> block of \<^verbatim>\<open>addAIAnalysisJob\<close> writes status failed and the message of the
  caught error on every row of the key, and then throws the same error to its caller.
\<close>

theorem inline_failure_rethrown:
  assumes "fst (processContent e t ct cid (mark_processing ct cid w)) = Inl error"
  shows "fst (addAIAnalysisJob True e t ct cid pr w) = Inl error
     \<and> (\<forall>j \<in> set (jobs (snd (addAIAnalysisJob True e t ct cid pr w))).
           same_key ct cid j \<longrightarrow> status j = failed \<and> error_message j = Some (err_message error))"
proof -
  obtain res w1 where p: "processContent e t ct cid (mark_processing ct cid w) = (res, w1)"
    by (cases "processContent e t ct cid (mark_processing ct cid w)")
  with assms have res: "res = Inl error" by simp
  with p have "addAIAnalysisJob True e t ct cid pr w =
      (Inl error, mark_failed ct cid (err_message error) w1)"
    by (simp add: addAIAnalysisJob_def)
  then show ?thesis using mark_failed_rows [of ct cid "err_message error" w1] by simp
qed

lemma addAIAnalysisJob_not_found:
  "addAIAnalysisJob True env0 no_tables (ascii ''dua'') 42 pr w =
     (Inl (mk_Error (ascii ''Content not found'')),
      mark_failed (ascii ''dua'') 42 (ascii ''Content not found'')
        (mark_failed (ascii ''dua'') 42 (ascii ''Content not found'')
           (mark_processing (ascii ''dua'') 42 (mark_processing (ascii ''dua'') 42 w))))"
  by (simp add: addAIAnalysisJob_def processContent_not_found mk_Error_def)

theorem inline_failure_rethrown_witness:
  "fst (processContent env0 no_tables (ascii ''dua'') 42
          (mark_processing (ascii ''dua'') 42 (w_job pending))) =
     Inl (mk_Error (ascii ''Content not found''))
   \<and> fst (addAIAnalysisJob True env0 no_tables (ascii ''dua'') 42 (ascii ''normal'') (w_job pending)) =
     Inl (mk_Error (ascii ''Content not found''))
   \<and> map status (jobs (snd (addAIAnalysisJob True env0 no_tables (ascii ''dua'') 42
                               (ascii ''normal'') (w_job pending)))) = [failed]"
proof -
  have h: "fst (processContent env0 no_tables (ascii ''dua'') 42
               (mark_processing (ascii ''dua'') 42 (w_job pending))) =
          Inl (mk_Error (ascii ''Content not found''))"
    by (simp add: processContent_not_found)
  have s: "map status (jobs (snd (addAIAnalysisJob True env0 no_tables (ascii ''dua'') 42
                               (ascii ''normal'') (w_job pending)))) = [failed]"
    by (simp add: addAIAnalysisJob_not_found mark_failed_def mark_processing_def w_job_def
          job1_def same_key_def)
  from inline_failure_rethrown [OF h, of "ascii ''normal''"] have
    "fst (addAIAnalysisJob True env0 no_tables (ascii ''dua'') 42 (ascii ''normal'') (w_job pending)) =
       Inl (mk_Error (ascii ''Content not found''))" by (rule conjunct1)
  with h s show ?thesis by simp
qed

text \<open>
  The claim as stated fails: with a pending row for a dua that has no content row, the
  error \<^verbatim>\<open>Content not found\<close> escapes from \<^verbatim>\<open>addAIAnalysisJob\<close>.
\<close>

theorem inline_exception_counterexample:
  "fst (addAIAnalysisJob True env0 no_tables (ascii ''dua'') 42 (ascii ''normal'') (w_job pending)) =
     Inl (mk_Error (ascii ''Content not found''))"
  by (simp add: addAIAnalysisJob_not_found)

subsection \<open>The prompt\<close>

lemma starts_with_append: "starts_with (n @ b) n"
  by (induction n) auto

lemma js_includes_start: "starts_with s n \<Longrightarrow> js_includes s n"
  by (cases s; cases n) auto

lemma js_includes_append: "js_includes (a @ n @ b) n"
  by (induction a) (simp_all add: js_includes_start starts_with_append)

lemma js_includes_mid: "js_includes (a @ n @ b @ c) n"
  using js_includes_append [of a n "b @ c"] by simp

lemma blog_prompt:
  "buildPrompt (ascii ''blog'') blog_post =
     ascii ''Content to analyze:'' @ [10] @ ascii ''Title: Patience'' @ [10]
     @ ascii ''Purpose: Not specified'' @ [10] @ ascii ''Arabic Text: Not specified'' @ [10]
     @ ascii ''English Meaning: Not specified'' @ [10]
     @ ascii ''Transliteration: Not specified'' @ [10]
     @ ascii ''Native Meaning: Not specified'' @ [10]
     @ ascii ''Source Reference: N/A'' @ prompt_tail"
  by (simp add: buildPrompt_def blog_post_def no_content_def field_or_def ascii_def)

text \<open>
  The claim as stated fails: the prompt built for a blog post does not contain the body
  of the post.
\<close>

theorem prompt_body_counterexample:
  "\<not> js_includes (buildPrompt (ascii ''blog'') blog_post) (ascii ''Fasting teaches patience and gratitude.'')"
  unfolding blog_prompt by (simp add: prompt_tail_def ascii_def)

lemma includes_field:
  "js_includes (a @ l @ f @ [10] @ b) (l @ f @ [10])"
  using js_includes_append [of a "l @ f @ [10]" b] by simp

text \<open>
  Claim C9, as the code has it. There is one template for all content kinds:
  \<^verbatim>\<open>buildPrompt\<close> does not read the content kind, and the prompt does not depend on the
  body (\<^verbatim>\<open>content\<close>) of a blog post, question or answer. It embeds the seven fields of a
  dua, each on its line after its label, with \<^verbatim>\<open>Not specified\<close> for a missing or empty
  field, and \<^verbatim>\<open>N/A\<close> for a missing or empty source reference.
\<close>

theorem prompt_construction:
  "buildPrompt ct c = buildPrompt ct' c
   \<and> buildPrompt ct (c\<lparr>content := b, meaning := m\<rparr>) = buildPrompt ct c
   \<and> js_includes (buildPrompt ct c)
        (ascii ''Title: '' @ field_or (title c) (ascii ''Not specified'') @ [10])
   \<and> js_includes (buildPrompt ct c)
        (ascii ''Purpose: '' @ field_or (purpose c) (ascii ''Not specified'') @ [10])
   \<and> js_includes (buildPrompt ct c)
        (ascii ''Arabic Text: '' @ field_or (arabic_text c) (ascii ''Not specified'') @ [10])
   \<and> js_includes (buildPrompt ct c)
        (ascii ''English Meaning: '' @ field_or (english_meaning c) (ascii ''Not specified'') @ [10])
   \<and> js_includes (buildPrompt ct c)
        (ascii ''Transliteration: '' @ field_or (transliteration c) (ascii ''Not specified'') @ [10])
   \<and> js_includes (buildPrompt ct c)
        (ascii ''Native Meaning: '' @ field_or (native_meaning c) (ascii ''Not specified'') @ [10])
   \<and> js_includes (buildPrompt ct c)
        (ascii ''Source Reference: '' @ field_or (source_reference c) (ascii ''N/A'') @ [10, 10])"
proof -
  have kind: "buildPrompt ct c = buildPrompt ct' c"
    by (simp add: buildPrompt_def)
  have body: "buildPrompt ct (c\<lparr>content := b, meaning := m\<rparr>) = buildPrompt ct c"
    by (simp add: buildPrompt_def)
  have f1: "js_includes (buildPrompt ct c)
        (ascii ''Title: '' @ field_or (title c) (ascii ''Not specified'') @ [10])"
    unfolding buildPrompt_def
    using includes_field [of "ascii ''Content to analyze:'' @ [10]" "ascii ''Title: ''"]
    by simp
  have f2: "js_includes (buildPrompt ct c)
        (ascii ''Purpose: '' @ field_or (purpose c) (ascii ''Not specified'') @ [10])"
    unfolding buildPrompt_def
    using includes_field [of "ascii ''Content to analyze:'' @ [10] @ ascii ''Title: ''
        @ field_or (title c) (ascii ''Not specified'') @ [10]" "ascii ''Purpose: ''"]
    by simp
  have f3: "js_includes (buildPrompt ct c)
        (ascii ''Arabic Text: '' @ field_or (arabic_text c) (ascii ''Not specified'') @ [10])"
    unfolding buildPrompt_def
    using includes_field [of "ascii ''Content to analyze:'' @ [10] @ ascii ''Title: ''
        @ field_or (title c) (ascii ''Not specified'') @ [10] @ ascii ''Purpose: ''
        @ field_or (purpose c) (ascii ''Not specified'') @ [10]" "ascii ''Arabic Text: ''"]
    by simp
  have f4: "js_includes (buildPrompt ct c)
        (ascii ''English Meaning: '' @ field_or (english_meaning c) (ascii ''Not specified'') @ [10])"
    unfolding buildPrompt_def
    using includes_field [of "ascii ''Content to analyze:'' @ [10] @ ascii ''Title: ''
        @ field_or (title c) (ascii ''Not specified'') @ [10] @ ascii ''Purpose: ''
        @ field_or (purpose c) (ascii ''Not specified'') @ [10] @ ascii ''Arabic Text: ''
        @ field_or (arabic_text c) (ascii ''Not specified'') @ [10]" "ascii ''English Meaning: ''"]
    by simp
  have f5: "js_includes (buildPrompt ct c)
        (ascii ''Transliteration: '' @ field_or (transliteration c) (ascii ''Not specified'') @ [10])"
    unfolding buildPrompt_def
    using includes_field [of "ascii ''Content to analyze:'' @ [10] @ ascii ''Title: ''
        @ field_or (title c) (ascii ''Not specified'') @ [10] @ ascii ''Purpose: ''
        @ field_or (purpose c) (ascii ''Not specified'') @ [10] @ ascii ''Arabic Text: ''
        @ field_or (arabic_text c) (ascii ''Not specified'') @ [10] @ ascii ''English Meaning: ''
        @ field_or (english_meaning c) (ascii ''Not specified'') @ [10]"
        "ascii ''Transliteration: ''"]
    by simp
  have f6: "js_includes (buildPrompt ct c)
        (ascii ''Native Meaning: '' @ field_or (native_meaning c) (ascii ''Not specified'') @ [10])"
    unfolding buildPrompt_def
    using includes_field [of "ascii ''Content to analyze:'' @ [10] @ ascii ''Title: ''
        @ field_or (title c) (ascii ''Not specified'') @ [10] @ ascii ''Purpose: ''
        @ field_or (purpose c) (ascii ''Not specified'') @ [10] @ ascii ''Arabic Text: ''
        @ field_or (arabic_text c) (ascii ''Not specified'') @ [10] @ ascii ''English Meaning: ''
        @ field_or (english_meaning c) (ascii ''Not specified'') @ [10]
        @ ascii ''Transliteration: '' @ field_or (transliteration c) (ascii ''Not specified'') @ [10]"
        "ascii ''Native Meaning: ''"]
    by simp
  have t: "prompt_tail = [10, 10] @ drop 2 prompt_tail"
    by (simp add: prompt_tail_def)
  have f7: "js_includes (buildPrompt ct c)
        (ascii ''Source Reference: '' @ field_or (source_reference c) (ascii ''N/A'') @ [10, 10])"
    unfolding buildPrompt_def
    apply (subst t)
    using js_includes_append [of "ascii ''Content to analyze:'' @ [10] @ ascii ''Title: ''
        @ field_or (title c) (ascii ''Not specified'') @ [10] @ ascii ''Purpose: ''
        @ field_or (purpose c) (ascii ''Not specified'') @ [10] @ ascii ''Arabic Text: ''
        @ field_or (arabic_text c) (ascii ''Not specified'') @ [10] @ ascii ''English Meaning: ''
        @ field_or (english_meaning c) (ascii ''Not specified'') @ [10]
        @ ascii ''Transliteration: '' @ field_or (transliteration c) (ascii ''Not specified'') @ [10]
        @ ascii ''Native Meaning: '' @ field_or (native_meaning c) (ascii ''Not specified'') @ [10]"
        "ascii ''Source Reference: '' @ field_or (source_reference c) (ascii ''N/A'') @ [10, 10]"
        "drop 2 prompt_tail"]
    by simp
  from kind body f1 f2 f3 f4 f5 f6 f7 show ?thesis by blast
qed

theorem prompt_construction_witness:
  "buildPrompt (ascii ''blog'') blog_post = buildPrompt (ascii ''dua'') blog_post
   \<and> buildPrompt (ascii ''blog'') (blog_post\<lparr>content := None, meaning := None\<rparr>) =
       buildPrompt (ascii ''blog'') blog_post
   \<and> js_includes (buildPrompt (ascii ''blog'') blog_post) (ascii ''Title: '' @ ascii ''Patience'' @ [10])
   \<and> js_includes (buildPrompt (ascii ''blog'') blog_post)
        (ascii ''Purpose: '' @ ascii ''Not specified'' @ [10])
   \<and> js_includes (buildPrompt (ascii ''blog'') blog_post)
        (ascii ''Source Reference: '' @ ascii ''N/A'' @ [10, 10])"
proof -
  have t: "field_or (title blog_post) (ascii ''Not specified'') = ascii ''Patience''"
    by (simp add: blog_post_def field_or_def ascii_def)
  have p: "field_or (purpose blog_post) (ascii ''Not specified'') = ascii ''Not specified''"
    by (simp add: blog_post_def no_content_def field_or_def)
  have r: "field_or (source_reference blog_post) (ascii ''N/A'') = ascii ''N/A''"
    by (simp add: blog_post_def no_content_def field_or_def)
  from prompt_construction [of "ascii ''blog''" blog_post "ascii ''dua''" None None]
  show ?thesis unfolding t p r by blast
qed

subsection \<open>The local fallback\<close>

lemma draft_suggestions:
  "local_suggestions (ascii ''dua'') draft_dua = [en_arabic_short, en_meaning_important]"
  by (simp add: local_suggestions_def draft_dua_def no_content_def present_and_shorter_def
        falsy_field_def ascii_def)

lemmas en_defs = en_title_short_def en_arabic_short_def en_meaning_short_def
  en_arabic_required_def en_meaning_important_def en_blog_short_def en_looks_good_def
  en_more_context_def

lemma translate_arabic_short: "translate en_arabic_short = bn_arabic_short"
  by (simp add: translate_def banglaTranslations_def en_defs ascii_def bn_arabic_short_def)

lemma translate_meaning_important: "translate en_meaning_important = bn_meaning_important"
  by (simp add: translate_def banglaTranslations_def en_defs ascii_def bn_meaning_important_def)

lemma draft_corrections:
  "corrections (generateLocalFallbackAnalysis (ascii ''dua'') draft_dua) =
     [JStr bn_arabic_short, JStr bn_meaning_important]"
  by (simp add: generateLocalFallbackAnalysis_def draft_suggestions translate_arabic_short
        translate_meaning_important)

lemma valid_dua: "valid_content_type (ascii ''dua'')"
  by (simp add: valid_content_type_def)

lemma draft_accepted: "\<not> (falsy_field (title draft_dua) \<and> falsy_field (arabic_text draft_dua))"
  by (simp add: draft_dua_def falsy_field_def ascii_def)

text \<open>
  Claim C8, as the code has it. When every remote call fails, the draft route answers
  the dua draft with an empty title and the Arabic text \<^verbatim>\<open>x\<close> with status 200 and
  \<^verbatim>\<open>'completed'\<close>; the analysis is the local one, with source \<^verbatim>\<open>local_fallback\<close>,
  confidence 0.6 and two corrections, in Bengali: the Arabic text is too short, and the
  meaning is missing. The empty title is not flagged: the title rule only applies to a
  title that is not empty.
\<close>

theorem local_fallback_end_to_end:
  assumes "\<forall>n. \<exists>err. reply w n = Inl err"
  shows "fst (analyze_draft e (ascii ''dua'') (Some draft_dua) w) =
           (200, AnalysisBody (ascii ''completed'')
                   (generateLocalFallbackAnalysis (ascii ''dua'') draft_dua))
     \<and> source (generateLocalFallbackAnalysis (ascii ''dua'') draft_dua) = Some (ascii ''local_fallback'')
     \<and> confidence (generateLocalFallbackAnalysis (ascii ''dua'') draft_dua) = JNum (6 / 10)
     \<and> corrections (generateLocalFallbackAnalysis (ascii ''dua'') draft_dua) =
         [JStr bn_arabic_short, JStr bn_meaning_important]"
proof -
  let ?g = "Gemma3_generateAnalysis e (ascii ''dua'') draft_dua w"
  have g: "fst ?g = Inl unavailable_error"
    using assms by (rule Gemma3_generateAnalysis_fails)
  have "\<forall>n. \<exists>err. reply (snd ?g) n = Inl err"
    using assms by (simp add: reply_Gemma3_generateAnalysis)
  then obtain err where "reply (snd ?g) (length (calls (snd ?g))) = Inl err" by blast
  then have a: "fst (AI_generateAnalysis e (ascii ''dua'') draft_dua (snd ?g)) = Inl unavailable_error"
    by (rule AI_generateAnalysis_fails)
  obtain w1 where gw: "?g = (Inl unavailable_error, w1)"
    using g by (cases ?g) auto
  then have "snd ?g = w1" by simp
  with a obtain w2 where aw:
    "AI_generateAnalysis e (ascii ''dua'') draft_dua w1 = (Inl unavailable_error, w2)"
    by (cases "AI_generateAnalysis e (ascii ''dua'') draft_dua w1") auto
  have "fst (analyze_draft e (ascii ''dua'') (Some draft_dua) w) =
           (200, AnalysisBody (ascii ''completed'')
                   (generateLocalFallbackAnalysis (ascii ''dua'') draft_dua))"
    using draft_accepted by (simp add: analyze_draft_def valid_dua gw aw)
  then show ?thesis
    by (simp add: draft_corrections) (simp add: generateLocalFallbackAnalysis_def)
qed

lemma all_unreachable: "\<forall>n. \<exists>err. reply w_unreachable n = Inl err"
  by (simp add: w_unreachable_def unreachable_def)

theorem local_fallback_end_to_end_witness:
  "fst (analyze_draft env0 (ascii ''dua'') (Some draft_dua) w_unreachable) =
           (200, AnalysisBody (ascii ''completed'')
                   (generateLocalFallbackAnalysis (ascii ''dua'') draft_dua))
   \<and> confidence (generateLocalFallbackAnalysis (ascii ''dua'') draft_dua) = JNum (6 / 10)"
  using local_fallback_end_to_end [OF all_unreachable, of env0] by blast

lemma bn_title_differs: "bn_title_short \<noteq> bn_arabic_short \<and> bn_title_short \<noteq> bn_meaning_important"
  by (simp add: bn_title_short_def bn_arabic_short_def bn_meaning_important_def)

lemma en_title_differs: "en_title_short \<noteq> bn_arabic_short \<and> en_title_short \<noteq> bn_meaning_important"
  by (simp add: en_title_short_def bn_arabic_short_def bn_meaning_important_def ascii_def)

text \<open>
  The claim as stated fails: the corrections do not hold the suggestion about the title,
  in either language.
\<close>

theorem missing_title_counterexample:
  "corrections (generateLocalFallbackAnalysis (ascii ''dua'') draft_dua) =
     [JStr bn_arabic_short, JStr bn_meaning_important]
   \<and> JStr bn_title_short \<notin> set (corrections (generateLocalFallbackAnalysis (ascii ''dua'') draft_dua))
   \<and> JStr en_title_short \<notin> set (corrections (generateLocalFallbackAnalysis (ascii ''dua'') draft_dua))"
  using bn_title_differs en_title_differs by (simp add: draft_corrections)

subsection \<open>Parse failures of a response that arrived\<close>




























subsection \<open>Truncation repair\<close>















































end
